theory Spec2Isabelle
  imports Main "HOL-Library.Multiset"
begin

section \<open>Data model of the KV storage backend\<close>

text \<open>
  The embedding follows \<^verbatim>\<open>pkg/storage/unified/resource/storage_backend.go\<close>.
  Go's \<^verbatim>\<open>int64\<close> resource versions are \<^typ>\<open>int\<close>; where the source does
  arithmetic on them the two's-complement wrap-around is written out with \<open>int64\<close>.
  Byte slices and strings are \<^typ>\<open>string\<close>.
\<close>

type_synonym bytes = string

definition int64 :: "int \<Rightarrow> int" where
  "int64 x = (x + 2 ^ 63) mod 2 ^ 64 - 2 ^ 63"

datatype DataAction = DataActionCreated | DataActionUpdated | DataActionDeleted

text \<open>
  \<^verbatim>\<open>resourcepb.WatchEvent_Type\<close> is a protobuf enum, an integer in Go; the three values
  that \<^verbatim>\<open>WriteEvent\<close> switches on are constructors, every other number is
  \<open>WatchEvent_Other\<close>.
\<close>

datatype WatchEvent_Type =
    WatchEvent_ADDED
  | WatchEvent_MODIFIED
  | WatchEvent_DELETED
  | WatchEvent_Other int

text \<open>
  Errors are values. \<open>ErrNotFound\<close> and \<open>ErrResourceAlreadyExists\<close> are the package's
  sentinel errors, compared with \<^verbatim>\<open>==\<close> in the source; \<open>Wrapped msg err\<close> is
  \<^verbatim>\<open>fmt.Errorf("msg: %w", err)\<close>, \<open>Errorf msg\<close> an error built from a message alone
  (a number formatted into it is left out),
  \<open>StoreError msg\<close> an error raised by a collaborator (KV engine, document builder,
  token codec, reader), and \<open>Panic msg\<close> a run-time panic.
\<close>

datatype error =
    ErrNotFound
  | ErrResourceAlreadyExists
  | Wrapped string error
  | Errorf string
  | StoreError string
  | Panic string

text \<open>
  \<^verbatim>\<open>ResourceKey\<close>, \<^verbatim>\<open>MetaGetRequestKey\<close>, \<^verbatim>\<open>MetaListRequestKey\<close> and
  \<^verbatim>\<open>ListRequestKey\<close> all carry the same four strings; \<^verbatim>\<open>DataKey\<close> adds the
  resource version and the action, \<^verbatim>\<open>MetaDataKey\<close> the folder, \<^verbatim>\<open>Event\<close> the
  previous resource version.
\<close>

record ResourceKey =
  Namespace :: string
  Group :: string
  Resource :: string
  Name :: string

type_synonym MetaGetRequestKey = ResourceKey
type_synonym MetaListRequestKey = ResourceKey
type_synonym ListRequestKey = ResourceKey

record DataKey = ResourceKey +
  ResourceVersion :: int
  Action :: DataAction

record MetaDataKey = DataKey +
  Folder :: string

record Event = MetaDataKey +
  PreviousRV :: int

datatype IndexableDocument = IndexableDocument string

record MetaDataObj =
  meta_Key :: MetaDataKey
  meta_Value :: IndexableDocument

text \<open>
  The write request. \<open>ev_Folder\<close> is \<^verbatim>\<open>event.Object.GetFolder()\<close>. A request whose key
  or object is nil is rejected by \<^verbatim>\<open>event.Validate()\<close>, so the key is not optional here.
\<close>

record WriteEvent =
  ev_Type :: WatchEvent_Type
  ev_Key :: ResourceKey
  ev_Value :: bytes
  ev_Folder :: string
  ev_PreviousRV :: int

text \<open>
  What \<^verbatim>\<open>dataStore.Get\<close> hands back is an \<^verbatim>\<open>io.ReadCloser\<close>; all the backend does
  with it is \<^verbatim>\<open>io.ReadAll\<close>, which returns the bytes read so far and an optional error.
\<close>

datatype ReadCloser = ReadCloser bytes "error option"

fun ReadAll :: "ReadCloser \<Rightarrow> bytes \<times> error option" where
  "ReadAll (ReadCloser b e) = (b, e)"

text \<open>
  The continuation token. Its wire format (\<^verbatim>\<open>GetContinueToken\<close> to decode,
  \<^verbatim>\<open>String\<close> to encode) is outside the excerpt and is a parameter below.
\<close>

record ContinueToken =
  StartOffset :: int
  tok_ResourceVersion :: int
  SortAscending :: bool

section \<open>Collaborators\<close>

text \<open>
  The backend composes a snowflake node, a data store, a metadata store, an event store
  and a document builder. Their code is outside the excerpt, so their operations are
  parameters: each takes the state of its store (\<open>'g\<close>, \<open>'d\<close>, \<open>'m\<close>, \<open>'e\<close>) and a
  mutating operation returns the next state. A \<^verbatim>\<open>Save\<close> returns its store also
  when it fails, so a failed save may or may not have left something behind. The
  iterators of \<^verbatim>\<open>dataStore.Keys\<close> and \<^verbatim>\<open>metaStore.ListResourceKeysAtRevision\<close>
  yield a key or an error at each step; they are lists of \<open>error + key\<close>.
\<close>

record ('g, 'd, 'm, 'e) collaborators =
  Generate :: "'g \<Rightarrow> int \<times> 'g"
  Validate :: "WriteEvent \<Rightarrow> error option"
  BuildDocument :: "ResourceKey \<Rightarrow> int \<Rightarrow> bytes \<Rightarrow> error + IndexableDocument"
  dataStore_Save :: "DataKey \<Rightarrow> bytes \<Rightarrow> 'd \<Rightarrow> error option \<times> 'd"
  dataStore_Get :: "'d \<Rightarrow> DataKey \<Rightarrow> error + ReadCloser"
  dataStore_Keys :: "'d \<Rightarrow> ListRequestKey \<Rightarrow> (error + DataKey) list"
  metaStore_Save :: "MetaDataObj \<Rightarrow> 'm \<Rightarrow> error option \<times> 'm"
  metaStore_GetLatestResourceKey :: "'m \<Rightarrow> MetaGetRequestKey \<Rightarrow> error + MetaDataKey"
  metaStore_GetResourceKeyAtRevision ::
    "'m \<Rightarrow> MetaGetRequestKey \<Rightarrow> int \<Rightarrow> error + MetaDataKey"
  metaStore_ListResourceKeysAtRevision ::
    "'m \<Rightarrow> MetaListRequestKey \<Rightarrow> int \<Rightarrow> (error + MetaDataKey) list"
  eventStore_Save :: "Event \<Rightarrow> 'e \<Rightarrow> error option \<times> 'e"
  GetContinueToken :: "string \<Rightarrow> error + ContinueToken"
  ContinueToken_String :: "ContinueToken \<Rightarrow> string"

record ('g, 'd, 'm, 'e) kvStorageBackend =
  snowflake :: 'g
  dataStore :: 'd
  metaStore :: 'm
  eventStore :: 'e

section \<open>WriteEvent\<close>

text \<open>
  The \<^verbatim>\<open>switch event.Type\<close> of \<^verbatim>\<open>WriteEvent\<close>: the action of the write, or the
  error the switch returns with. For \<^verbatim>\<open>ADDED\<close> the latest metadata key is looked up
  first.
\<close>

definition WriteEvent_action ::
  "('g, 'd, 'm, 'e) collaborators \<Rightarrow> ('g, 'd, 'm, 'e) kvStorageBackend \<Rightarrow> WriteEvent
     \<Rightarrow> error + DataAction" where
  "WriteEvent_action c k event =
     (case ev_Type event of
        WatchEvent_ADDED \<Rightarrow>
          (case metaStore_GetLatestResourceKey c (metaStore k) (ev_Key event) of
             Inr found \<Rightarrow> Inl ErrResourceAlreadyExists
           | Inl err \<Rightarrow>
               if err \<noteq> ErrNotFound
               then Inl (Wrapped ''failed to check if resource exists'' err)
               else Inr DataActionCreated)
      | WatchEvent_MODIFIED \<Rightarrow> Inr DataActionUpdated
      | WatchEvent_DELETED \<Rightarrow> Inr DataActionDeleted
      | WatchEvent_Other n \<Rightarrow> Inl (Errorf ''invalid event type''))"

text \<open>The keys of the three records written for one event.\<close>

definition WriteEvent_DataKey :: "WriteEvent \<Rightarrow> int \<Rightarrow> DataAction \<Rightarrow> DataKey" where
  "WriteEvent_DataKey event rv action =
     \<lparr>Namespace = Namespace (ev_Key event), Group = Group (ev_Key event),
      Resource = Resource (ev_Key event), Name = Name (ev_Key event),
      ResourceVersion = rv, Action = action\<rparr>"

definition WriteEvent_MetaDataObj ::
  "WriteEvent \<Rightarrow> int \<Rightarrow> DataAction \<Rightarrow> IndexableDocument \<Rightarrow> MetaDataObj" where
  "WriteEvent_MetaDataObj event rv action doc =
     \<lparr>meta_Key =
        \<lparr>Namespace = Namespace (ev_Key event), Group = Group (ev_Key event),
         Resource = Resource (ev_Key event), Name = Name (ev_Key event),
         ResourceVersion = rv, Action = action, Folder = ev_Folder event\<rparr>,
      meta_Value = doc\<rparr>"

definition WriteEvent_Event :: "WriteEvent \<Rightarrow> int \<Rightarrow> DataAction \<Rightarrow> Event" where
  "WriteEvent_Event event rv action =
     \<lparr>Namespace = Namespace (ev_Key event), Group = Group (ev_Key event),
      Resource = Resource (ev_Key event), Name = Name (ev_Key event),
      ResourceVersion = rv, Action = action, Folder = ev_Folder event,
      PreviousRV = ev_PreviousRV event\<rparr>"

text \<open>
  The three writes of \<^verbatim>\<open>WriteEvent\<close>, in the order of the source: data, metadata,
  event. Each failure returns at once with the backend as the writes so far left it.
\<close>

definition WriteEvent_persist ::
  "('g, 'd, 'm, 'e) collaborators \<Rightarrow> ('g, 'd, 'm, 'e) kvStorageBackend \<Rightarrow> WriteEvent
     \<Rightarrow> int \<Rightarrow> DataAction \<Rightarrow> IndexableDocument
     \<Rightarrow> (error + int) \<times> ('g, 'd, 'm, 'e) kvStorageBackend" where
  "WriteEvent_persist c k event rv action doc =
     (case dataStore_Save c (WriteEvent_DataKey event rv action) (ev_Value event) (dataStore k) of
        (Some err, d) \<Rightarrow> (Inl (Wrapped ''failed to write data'' err), k\<lparr>dataStore := d\<rparr>)
      | (None, d) \<Rightarrow>
          (case metaStore_Save c (WriteEvent_MetaDataObj event rv action doc) (metaStore k) of
             (Some err, m) \<Rightarrow>
               (Inl (Wrapped ''failed to write metadata'' err),
                k\<lparr>dataStore := d, metaStore := m\<rparr>)
           | (None, m) \<Rightarrow>
               (case eventStore_Save c (WriteEvent_Event event rv action) (eventStore k) of
                  (Some err, e) \<Rightarrow>
                    (Inl (Wrapped ''failed to save event'' err),
                     k\<lparr>dataStore := d, metaStore := m, eventStore := e\<rparr>)
                | (None, e) \<Rightarrow>
                    (Inr rv, k\<lparr>dataStore := d, metaStore := m, eventStore := e\<rparr>))))"

definition WriteEvent ::
  "('g, 'd, 'm, 'e) collaborators \<Rightarrow> ('g, 'd, 'm, 'e) kvStorageBackend \<Rightarrow> WriteEvent
     \<Rightarrow> (error + int) \<times> ('g, 'd, 'm, 'e) kvStorageBackend" where
  "WriteEvent c k event =
     (case Validate c event of
        Some err \<Rightarrow> (Inl (Wrapped ''invalid event'' err), k)
      | None \<Rightarrow>
          (case Generate c (snowflake k) of
             (rv, g) \<Rightarrow>
               (case WriteEvent_action c k event of
                  Inl err \<Rightarrow> (Inl err, k\<lparr>snowflake := g\<rparr>)
                | Inr action \<Rightarrow>
                    (case BuildDocument c (ev_Key event) rv (ev_Value event) of
                       Inl err \<Rightarrow>
                         (Inl (Wrapped ''failed to build document'' err), k\<lparr>snowflake := g\<rparr>)
                     | Inr doc \<Rightarrow>
                         WriteEvent_persist c (k\<lparr>snowflake := g\<rparr>) event rv action doc))))"

section \<open>ReadResource\<close>

text \<open>
  \<open>Error err\<close> is \<^verbatim>\<open>err.Error()\<close>. The texts of the two sentinel errors are declared
  outside the excerpt; only the HTTP code of a response is used below.
\<close>

fun Error :: "error \<Rightarrow> string" where
  "Error ErrNotFound = ''not found''"
| "Error ErrResourceAlreadyExists = ''resource already exists''"
| "Error (Wrapped msg err) = msg @ '': '' @ Error err"
| "Error (Errorf msg) = msg"
| "Error (StoreError msg) = msg"
| "Error (Panic msg) = msg"

record ReadRequest =
  rr_Key :: "ResourceKey option"
  rr_ResourceVersion :: int

record ErrorResult =
  Code :: int
  Message :: string

record BackendReadResponse =
  resp_Key :: "ResourceKey option"
  resp_ResourceVersion :: int
  resp_Value :: bytes
  resp_Folder :: string
  resp_Error :: "ErrorResult option"

definition StatusBadRequest :: int where "StatusBadRequest = 400"
definition StatusNotFound :: int where "StatusNotFound = 404"
definition StatusInternalServerError :: int where "StatusInternalServerError = 500"

text \<open>A response that carries only an error; the other fields are Go's zero values.\<close>

definition errorResponse :: "int \<Rightarrow> string \<Rightarrow> BackendReadResponse" where
  "errorResponse code msg =
     \<lparr>resp_Key = None, resp_ResourceVersion = 0, resp_Value = [], resp_Folder = [],
      resp_Error = Some \<lparr>Code = code, Message = msg\<rparr>\<rparr>"

definition ReadResource ::
  "('g, 'd, 'm, 'e) collaborators \<Rightarrow> ('g, 'd, 'm, 'e) kvStorageBackend \<Rightarrow> ReadRequest
     \<Rightarrow> BackendReadResponse" where
  "ReadResource c k req =
     (case rr_Key req of
        None \<Rightarrow> errorResponse StatusBadRequest ''missing key''
      | Some key \<Rightarrow>
          (case metaStore_GetResourceKeyAtRevision c (metaStore k) key (rr_ResourceVersion req) of
             Inl err \<Rightarrow>
               if err = ErrNotFound then errorResponse StatusNotFound ''not found''
               else errorResponse StatusInternalServerError (Error err)
           | Inr meta \<Rightarrow>
               (case dataStore_Get c (dataStore k)
                       \<lparr>Namespace = Namespace key, Group = Group key,
                        Resource = Resource key, Name = Name key,
                        ResourceVersion = ResourceVersion meta, Action = Action meta\<rparr> of
                  Inl err \<Rightarrow> errorResponse StatusInternalServerError (Error err)
                | Inr data \<Rightarrow>
                    (case ReadAll data of
                       (val, Some err) \<Rightarrow> errorResponse StatusInternalServerError (Error err)
                     | (val, None) \<Rightarrow>
                         \<lparr>resp_Key = Some key, resp_ResourceVersion = ResourceVersion meta,
                          resp_Value = val, resp_Folder = Folder meta,
                          resp_Error = None\<rparr>))))"

section \<open>ListIterator\<close>

text \<open>
  \<open>req_Key\<close> is \<^verbatim>\<open>req.Options.Key\<close>, \<open>None\<close> when \<^verbatim>\<open>req.Options\<close> or the key is
  nil. The two protobuf enums of the request are integers in Go; the values the backend
  compares with are constructors.
\<close>

datatype ListRequest_Source = ListRequest_TRASH | ListRequest_Source_Other int

datatype ResourceVersionMatchV2 =
    ResourceVersionMatchV2_Exact
  | ResourceVersionMatchV2_NotOlderThan
  | ResourceVersionMatchV2_Other int

record ListRequest =
  req_Key :: "ResourceKey option"
  req_NextPageToken :: string
  req_ResourceVersion :: int
  req_Limit :: int
  req_Source :: ListRequest_Source
  req_VersionMatchV2 :: ResourceVersionMatchV2

definition defaultListBufferSize :: int where
  "defaultListBufferSize = 100"

text \<open>
  The fields of \<^verbatim>\<open>kvListIterator\<close>, prefixed with \<open>li_\<close>. The context and the pointer
  to the data store are arguments of \<open>kvListIterator_Next\<close>.
\<close>

record kvListIterator =
  li_keys :: "MetaDataKey list"
  li_currentIndex :: int
  li_listRV :: int
  li_offset :: int
  li_rv :: int
  li_err :: "error option"
  li_value :: bytes

text \<open>
  The \<^verbatim>\<open>DataKey\<close> literal that \<^verbatim>\<open>Next\<close> builds from the metadata key under the
  cursor: the same six fields.
\<close>

definition dataKeyOf :: "MetaDataKey \<Rightarrow> DataKey" where
  "dataKeyOf key =
     \<lparr>Namespace = Namespace key, Group = Group key, Resource = Resource key,
      Name = Name key, ResourceVersion = ResourceVersion key, Action = Action key\<rparr>"

text \<open>
  \<^verbatim>\<open>Next\<close>: advance, and fetch the payload of the key now under the cursor. The result
  is \<open>Inl\<close> only for the index panic of \<^verbatim>\<open>i.keys[i.currentIndex]\<close> at a negative
  index, which an iterator that starts at \<open>-1\<close> never reaches.
\<close>

definition kvListIterator_Next ::
  "('g, 'd, 'm, 'e) collaborators \<Rightarrow> 'd \<Rightarrow> kvListIterator \<Rightarrow> error + bool \<times> kvListIterator" where
  "kvListIterator_Next c d i =
     (let i1 = i\<lparr>li_currentIndex := int64 (li_currentIndex i + 1)\<rparr> in
      if li_currentIndex i1 \<ge> int (length (li_keys i1)) then Inr (False, i1)
      else if li_currentIndex i1 < 0 then Inl (Panic ''index out of range'')
      else
        (let key = li_keys i1 ! nat (li_currentIndex i1);
             i2 = i1\<lparr>li_rv := ResourceVersion key, li_err := None\<rparr>
         in case dataStore_Get c d (dataKeyOf key) of
              Inl err \<Rightarrow> Inr (False, i2\<lparr>li_err := Some err\<rparr>)
            | Inr data \<Rightarrow>
                (case ReadAll data of
                   (val, Some err) \<Rightarrow> Inr (False, i2\<lparr>li_value := val, li_err := Some err\<rparr>)
                 | (val, None) \<Rightarrow>
                     Inr (True, i2\<lparr>li_value := val, li_err := None,
                                   li_offset := int64 (li_offset i2 + 1)\<rparr>))))"

definition kvListIterator_Error :: "kvListIterator \<Rightarrow> error option" where
  "kvListIterator_Error i = None"

text \<open>
  The token that \<^verbatim>\<open>ContinueToken\<close> encodes (\<^verbatim>\<open>SortAscending\<close> is left at its zero
  value), and the encoded string.
\<close>

definition kvListIterator_token :: "kvListIterator \<Rightarrow> ContinueToken" where
  "kvListIterator_token i =
     \<lparr>StartOffset = li_offset i, tok_ResourceVersion = li_listRV i, SortAscending = False\<rparr>"

definition kvListIterator_ContinueToken ::
  "('g, 'd, 'm, 'e) collaborators \<Rightarrow> kvListIterator \<Rightarrow> string" where
  "kvListIterator_ContinueToken c i = ContinueToken_String c (kvListIterator_token i)"

text \<open>
  The loop over \<^verbatim>\<open>metaStore.ListResourceKeysAtRevision\<close>: return at the first error,
  skip while \<^verbatim>\<open>idx < int(offset)\<close>, append, and stop once \<^verbatim>\<open>len(keys)\<close> reaches
  \<^verbatim>\<open>int(req.Limit+1)\<close> (the argument \<open>lim\<close>).
\<close>

fun ListIterator_scan ::
  "(error + MetaDataKey) list \<Rightarrow> int \<Rightarrow> int \<Rightarrow> int \<Rightarrow> MetaDataKey list
     \<Rightarrow> error + MetaDataKey list" where
  "ListIterator_scan [] idx offset lim keys = Inr keys"
| "ListIterator_scan (Inl err # rest) idx offset lim keys = Inl err"
| "ListIterator_scan (Inr metaKey # rest) idx offset lim keys =
     (if idx < offset then ListIterator_scan rest (idx + 1) offset lim keys
      else if int (length (keys @ [metaKey])) \<ge> lim then Inr (keys @ [metaKey])
      else ListIterator_scan rest idx offset lim (keys @ [metaKey]))"

text \<open>
  The block ``Parse continue token if provided'' of \<^verbatim>\<open>ListIterator\<close>: the offset
  and the resource version the listing starts from.
\<close>

definition ListIterator_cursor ::
  "('g, 'd, 'm, 'e) collaborators \<Rightarrow> ListRequest \<Rightarrow> error + int \<times> int" where
  "ListIterator_cursor c req =
     (if req_NextPageToken req \<noteq> []
      then (case GetContinueToken c (req_NextPageToken req) of
              Inl err \<Rightarrow> Inl (Wrapped ''invalid continue token'' err)
            | Inr token \<Rightarrow> Inr (StartOffset token, tok_ResourceVersion token))
      else Inr (0, req_ResourceVersion req))"

text \<open>
  \<^verbatim>\<open>ListIterator\<close> up to the call of the callback: the iterator it builds, or the error
  it returns with, and the backend (the snowflake node has minted one id once the request
  and its token are accepted). \<^verbatim>\<open>make\<close> panics on a negative capacity.
\<close>

definition ListIterator_iter ::
  "('g, 'd, 'm, 'e) collaborators \<Rightarrow> ('g, 'd, 'm, 'e) kvStorageBackend \<Rightarrow> ListRequest
     \<Rightarrow> (error + kvListIterator) \<times> ('g, 'd, 'm, 'e) kvStorageBackend" where
  "ListIterator_iter c k req =
     (case req_Key req of
        None \<Rightarrow> (Inl (Errorf ''missing options or key in ListRequest''), k)
      | Some key \<Rightarrow>
          (case ListIterator_cursor c req of
             Inl err \<Rightarrow> (Inl err, k)
           | Inr (offset, resourceVersion) \<Rightarrow>
               (case Generate c (snowflake k) of
                  (minted, g) \<Rightarrow>
                    (let listRV = (if resourceVersion > 0 then resourceVersion else minted);
                         k' = k\<lparr>snowflake := g\<rparr>
                     in if min defaultListBufferSize (int64 (req_Limit req + 1)) < 0
                        then (Inl (Panic ''makeslice: cap out of range''), k')
                        else
                          (case ListIterator_scan
                                  (metaStore_ListResourceKeysAtRevision c (metaStore k) key
                                     resourceVersion)
                                  0 offset (int64 (req_Limit req + 1)) [] of
                             Inl err \<Rightarrow> (Inl err, k')
                           | Inr keys \<Rightarrow>
                               (Inr \<lparr>li_keys = keys, li_currentIndex = - 1, li_listRV = listRV,
                                     li_offset = offset, li_rv = 0, li_err = None,
                                     li_value = []\<rparr>, k'))))))"

definition ListIterator ::
  "('g, 'd, 'm, 'e) collaborators \<Rightarrow> ('g, 'd, 'm, 'e) kvStorageBackend \<Rightarrow> ListRequest
     \<Rightarrow> (kvListIterator \<Rightarrow> error option)
     \<Rightarrow> (error + int) \<times> ('g, 'd, 'm, 'e) kvStorageBackend" where
  "ListIterator c k req cb =
     (case ListIterator_iter c k req of
        (Inl err, k') \<Rightarrow> (Inl err, k')
      | (Inr iter, k') \<Rightarrow>
          (case cb iter of
             Some err \<Rightarrow> (Inl err, k')
           | None \<Rightarrow> (Inr (li_listRV iter), k')))"

section \<open>ListHistory and the trash\<close>

text \<open>The fields of \<^verbatim>\<open>kvHistoryIterator\<close>, prefixed with \<open>hi_\<close>.\<close>

record kvHistoryIterator =
  hi_keys :: "DataKey list"
  hi_currentIndex :: int
  hi_listRV :: int
  hi_sortAscending :: bool
  hi_rv :: int
  hi_err :: "error option"
  hi_value :: bytes
  hi_folder :: string

text \<open>The loop over \<^verbatim>\<open>dataStore.Keys\<close>: every key is appended, an error returns.\<close>

fun ListHistory_collect :: "(error + DataKey) list \<Rightarrow> DataKey list \<Rightarrow> error + DataKey list" where
  "ListHistory_collect [] historyKeys = Inr historyKeys"
| "ListHistory_collect (Inl err # rest) historyKeys = Inl err"
| "ListHistory_collect (Inr dataKey # rest) historyKeys =
     ListHistory_collect rest (historyKeys @ [dataKey])"

text \<open>
  The \<^verbatim>\<open>switch req.GetVersionMatchV2()\<close>, which \<^verbatim>\<open>ListHistory\<close> and
  \<^verbatim>\<open>processTrashEntries\<close> carry word for word.
\<close>

definition versionMatchFilter :: "ListRequest \<Rightarrow> DataKey list \<Rightarrow> error + DataKey list" where
  "versionMatchFilter req ks =
     (case req_VersionMatchV2 req of
        ResourceVersionMatchV2_Exact \<Rightarrow>
          if req_ResourceVersion req \<le> 0
          then Inl (Errorf
                 ''expecting an explicit resource version query when using Exact matching'')
          else Inr (filter (\<lambda>key. ResourceVersion key = req_ResourceVersion req) ks)
      | ResourceVersionMatchV2_NotOlderThan \<Rightarrow>
          if req_ResourceVersion req > 0
          then Inr (filter (\<lambda>key. ResourceVersion key \<ge> req_ResourceVersion req) ks)
          else Inr ks
      | ResourceVersionMatchV2_Other n \<Rightarrow>
          if req_ResourceVersion req > 0
          then Inr (filter (\<lambda>key. ResourceVersion key \<le> req_ResourceVersion req) ks)
          else Inr ks)"

text \<open>The loop that finds \<^verbatim>\<open>latestDeleteRV\<close>, starting from 0.\<close>

definition latestDeleteRV :: "DataKey list \<Rightarrow> int" where
  "latestDeleteRV ks =
     fold (\<lambda>key latest.
             if Action key = DataActionDeleted \<and> ResourceVersion key > latest
             then ResourceVersion key else latest) ks 0"

text \<open>The block guarded by \<^verbatim>\<open>useLatestDeletionAsMinRV\<close>.\<close>

definition liveHistory :: "ListRequest \<Rightarrow> DataKey list \<Rightarrow> DataKey list" where
  "liveHistory req ks =
     (if req_ResourceVersion req = 0 \<and> req_Source req \<noteq> ListRequest_TRASH
         \<and> req_VersionMatchV2 req \<noteq> ResourceVersionMatchV2_Exact
      then (if latestDeleteRV ks > 0
            then filter (\<lambda>key. ResourceVersion key > latestDeleteRV ks) ks
            else ks)
      else ks)"

text \<open>
  \<^verbatim>\<open>sort.Slice\<close> by resource version, ascending or descending. Go's sort leaves the
  order of entries with equal resource versions open; this one keeps their order.
\<close>

definition sortKeys :: "bool \<Rightarrow> DataKey list \<Rightarrow> DataKey list" where
  "sortKeys sortAscending ks =
     (if sortAscending then sort_key ResourceVersion ks
      else sort_key (\<lambda>key. - ResourceVersion key) ks)"

text \<open>The pagination loop.\<close>

definition pagedKeys :: "int \<Rightarrow> bool \<Rightarrow> DataKey list \<Rightarrow> DataKey list" where
  "pagedKeys lastSeenRV sortAscending ks =
     filter (\<lambda>key.
        if lastSeenRV = 0 then True
        else if sortAscending \<and> ResourceVersion key > lastSeenRV then True
        else if \<not> sortAscending \<and> ResourceVersion key < lastSeenRV then True
        else False) ks"

definition newHistoryIterator :: "DataKey list \<Rightarrow> int \<Rightarrow> bool \<Rightarrow> kvHistoryIterator" where
  "newHistoryIterator ks listRV sortAscending =
     \<lparr>hi_keys = ks, hi_currentIndex = - 1, hi_listRV = listRV,
      hi_sortAscending = sortAscending, hi_rv = 0, hi_err = None, hi_value = [],
      hi_folder = []\<rparr>"

text \<open>
  The loop that finds \<^verbatim>\<open>latestDelete\<close>: the first key of the greatest version. Each
  round of a Go loop has its own \<^verbatim>\<open>key\<close> variable, so the pointer \<^verbatim>\<open>&key\<close> keeps
  the key it was taken from.
\<close>

definition latestDelete :: "DataKey list \<Rightarrow> DataKey option" where
  "latestDelete deletedKeys =
     fold (\<lambda>key latest.
             case latest of
               None \<Rightarrow> Some key
             | Some l \<Rightarrow> if ResourceVersion key > ResourceVersion l then Some key else Some l)
          deletedKeys None"

text \<open>
  The first half of \<^verbatim>\<open>processTrashEntries\<close>: keep the deletions, look the object
  up in the metadata store, and select the latest deletion only when the lookup returns
  \<^verbatim>\<open>ErrNotFound\<close>; on any other outcome \<^verbatim>\<open>trashKeys\<close> stays empty.
\<close>

definition trashKeys ::
  "('g, 'd, 'm, 'e) collaborators \<Rightarrow> ('g, 'd, 'm, 'e) kvStorageBackend \<Rightarrow> ResourceKey
     \<Rightarrow> DataKey list \<Rightarrow> DataKey list" where
  "trashKeys c k key historyKeys =
     (let deletedKeys = filter (\<lambda>key. Action key = DataActionDeleted) historyKeys
      in case metaStore_GetLatestResourceKey c (metaStore k) key of
           Inl err \<Rightarrow>
             if err = ErrNotFound
             then (case latestDelete deletedKeys of None \<Rightarrow> [] | Some l \<Rightarrow> [l])
             else []
         | Inr found \<Rightarrow> [])"

text \<open>
  \<^verbatim>\<open>processTrashEntries\<close> up to the call of the callback. \<open>key\<close> is
  \<^verbatim>\<open>req.Options.Key\<close>, which \<^verbatim>\<open>ListHistory\<close> has checked.
\<close>

definition processTrashEntries_iter ::
  "('g, 'd, 'm, 'e) collaborators \<Rightarrow> ('g, 'd, 'm, 'e) kvStorageBackend \<Rightarrow> ListRequest
     \<Rightarrow> ResourceKey \<Rightarrow> DataKey list \<Rightarrow> int \<Rightarrow> bool \<Rightarrow> int \<Rightarrow> error + kvHistoryIterator" where
  "processTrashEntries_iter c k req key historyKeys lastSeenRV sortAscending listRV =
     (case versionMatchFilter req (trashKeys c k key historyKeys) of
        Inl err \<Rightarrow> Inl err
      | Inr filtered \<Rightarrow>
          Inr (newHistoryIterator
                 (pagedKeys lastSeenRV sortAscending (sortKeys sortAscending filtered))
                 listRV sortAscending))"

text \<open>
  The block ``Parse continue token if provided'' of \<^verbatim>\<open>ListHistory\<close>:
  \<^verbatim>\<open>lastSeenRV\<close> and \<^verbatim>\<open>sortAscending\<close>.
\<close>

definition ListHistory_cursor ::
  "('g, 'd, 'm, 'e) collaborators \<Rightarrow> ListRequest \<Rightarrow> error + int \<times> bool" where
  "ListHistory_cursor c req =
     (if req_NextPageToken req \<noteq> []
      then (case GetContinueToken c (req_NextPageToken req) of
              Inl err \<Rightarrow> Inl (Wrapped ''invalid continue token'' err)
            | Inr token \<Rightarrow> Inr (tok_ResourceVersion token, SortAscending token))
      else Inr (0, req_VersionMatchV2 req = ResourceVersionMatchV2_NotOlderThan))"

text \<open>
  \<^verbatim>\<open>ListHistory\<close> up to the call of the callback: the iterator it builds, or the error
  it returns with, and the backend.
\<close>

definition ListHistory_iter ::
  "('g, 'd, 'm, 'e) collaborators \<Rightarrow> ('g, 'd, 'm, 'e) kvStorageBackend \<Rightarrow> ListRequest
     \<Rightarrow> (error + kvHistoryIterator) \<times> ('g, 'd, 'm, 'e) kvStorageBackend" where
  "ListHistory_iter c k req =
     (case req_Key req of
        None \<Rightarrow> (Inl (Errorf ''missing options or key in ListRequest''), k)
      | Some key \<Rightarrow>
          if Group key = [] then (Inl (Errorf ''group is required''), k)
          else if Resource key = [] then (Inl (Errorf ''resource is required''), k)
          else if Namespace key = [] then (Inl (Errorf ''namespace is required''), k)
          else if Name key = [] then (Inl (Errorf ''name is required''), k)
          else
            (case ListHistory_cursor c req of
               Inl err \<Rightarrow> (Inl err, k)
             | Inr (lastSeenRV, sortAscending) \<Rightarrow>
                 (case Generate c (snowflake k) of
                    (listRV, g) \<Rightarrow>
                      (let k' = k\<lparr>snowflake := g\<rparr>
                       in if min defaultListBufferSize (int64 (req_Limit req + 1)) < 0
                          then (Inl (Panic ''makeslice: cap out of range''), k')
                          else
                            (case ListHistory_collect (dataStore_Keys c (dataStore k) key) [] of
                               Inl err \<Rightarrow> (Inl err, k')
                             | Inr historyKeys \<Rightarrow>
                                 if req_Source req = ListRequest_TRASH
                                 then (processTrashEntries_iter c k' req key historyKeys
                                         lastSeenRV sortAscending listRV, k')
                                 else
                                   (case versionMatchFilter req historyKeys of
                                      Inl err \<Rightarrow> (Inl err, k')
                                    | Inr filtered \<Rightarrow>
                                        (Inr (newHistoryIterator
                                                (pagedKeys lastSeenRV sortAscending
                                                   (sortKeys sortAscending
                                                      (liveHistory req filtered)))
                                                listRV sortAscending), k')))))))"

definition ListHistory ::
  "('g, 'd, 'm, 'e) collaborators \<Rightarrow> ('g, 'd, 'm, 'e) kvStorageBackend \<Rightarrow> ListRequest
     \<Rightarrow> (kvHistoryIterator \<Rightarrow> error option)
     \<Rightarrow> (error + int) \<times> ('g, 'd, 'm, 'e) kvStorageBackend" where
  "ListHistory c k req fn =
     (case ListHistory_iter c k req of
        (Inl err, k') \<Rightarrow> (Inl err, k')
      | (Inr iter, k') \<Rightarrow>
          (case fn iter of
             Some err \<Rightarrow> (Inl err, k')
           | None \<Rightarrow> (Inr (hi_listRV iter), k')))"

section \<open>GetResourceStats\<close>

text \<open>
  \<^verbatim>\<open>strings.Split(s, sep)\<close> for a one-character separator.
\<close>

fun Split :: "string \<Rightarrow> char \<Rightarrow> string list" where
  "Split [] sep = [[]]"
| "Split (x # xs) sep =
     (if x = sep then [] # Split xs sep
      else (case Split xs sep of [] \<Rightarrow> [[x]] | p # ps \<Rightarrow> (x # p) # ps))"


text \<open>\<^verbatim>\<open>fmt.Sprintf("%s/%s/%s", dataKey.Namespace, dataKey.Group, dataKey.Resource)\<close>\<close>

definition statsKey :: "DataKey \<Rightarrow> string" where
  "statsKey dataKey = Namespace dataKey @ ''/'' @ Group dataKey @ ''/'' @ Resource dataKey"

text \<open>
  The two Go maps \<^verbatim>\<open>res\<close> and \<^verbatim>\<open>rvs\<close> are association lists with one entry for
  each key, in the order the keys were first written. Go ranges over a map in an order
  it does not fix; the rows come out here in the order of first writing. \<open>alist_put\<close>
  is the assignment \<^verbatim>\<open>m[k] = v\<close>.
\<close>

fun alist_put :: "'k \<Rightarrow> 'v \<Rightarrow> ('k \<times> 'v) list \<Rightarrow> ('k \<times> 'v) list" where
  "alist_put k v [] = [(k, v)]"
| "alist_put k v (p # ps) = (if fst p = k then (k, v) # ps else p # alist_put k v ps)"

text \<open>One round of the scanning loop of \<^verbatim>\<open>GetResourceStats\<close>.\<close>

definition stats_step ::
  "DataKey \<Rightarrow> (string \<times> (string \<times> bool) list) list \<times> (string \<times> int) list
     \<Rightarrow> (string \<times> (string \<times> bool) list) list \<times> (string \<times> int) list" where
  "stats_step dataKey acc =
     (let res = fst acc; rvs = snd acc; key = statsKey dataKey;
          res1 = (if map_of res key = None then alist_put key [] res else res);
          rvs1 = (if map_of res key = None then alist_put key 1 rvs else rvs);
          names = (case map_of res1 key of None \<Rightarrow> [] | Some ns \<Rightarrow> ns);
          res2 = alist_put key
                   (alist_put (Name dataKey) (Action dataKey \<noteq> DataActionDeleted) names) res1;
          rvs2 = alist_put key (ResourceVersion dataKey) rvs1
      in (res2, rvs2))"





definition lastWhere :: "('a \<Rightarrow> bool) \<Rightarrow> 'a list \<Rightarrow> 'a option" where
  "lastWhere P xs = find P (rev xs)"






section \<open>An in-memory instance of the collaborators\<close>

text \<open>
  The theorems below that speak of collaborators \<open>c\<close> hold for every choice of them.
  To run the backend on concrete inputs, this section gives one choice, written from the
  description of the stores in the specification.
\<close>

text \<open>
  Modelled from the spec: the version generator, whose code is a library outside the
  excerpt. ``Each call produces a strictly greater value than any prior call''; the
  state is the last value and a call returns the next integer.
\<close>

definition mem_Generate :: "int \<Rightarrow> int \<times> int" where
  "mem_Generate g = (g + 1, g + 1)"

text \<open>
  Modelled from the spec: \<^verbatim>\<open>WriteEvent.Validate\<close>, declared outside the excerpt
  (``key non-empty, value non-empty'').
\<close>

definition mem_Validate :: "WriteEvent \<Rightarrow> error option" where
  "mem_Validate event =
     (if Name (ev_Key event) = [] \<or> Resource (ev_Key event) = [] \<or> Group (ev_Key event) = []
      then Some (Errorf ''key is required'')
      else if ev_Value event = [] then Some (Errorf ''value is required'')
      else None)"

text \<open>
  Modelled from the spec: the document builder, an external capability
  (``the backend treats it as an opaque transform''); this one wraps the payload.
\<close>

definition mem_BuildDocument :: "ResourceKey \<Rightarrow> int \<Rightarrow> bytes \<Rightarrow> error + IndexableDocument" where
  "mem_BuildDocument key rv val = Inr (IndexableDocument val)"

text \<open>The identity of the object a key belongs to, and the prefix filter of a scan.\<close>

definition objectOf :: "'a ResourceKey_scheme \<Rightarrow> ResourceKey" where
  "objectOf r = \<lparr>Namespace = Namespace r, Group = Group r, Resource = Resource r, Name = Name r\<rparr>"

definition mem_matches :: "ResourceKey \<Rightarrow> 'a ResourceKey_scheme \<Rightarrow> bool" where
  "mem_matches req r =
     ((Namespace req = [] \<or> Namespace r = Namespace req)
      \<and> (Group req = [] \<or> Group r = Group req)
      \<and> (Resource req = [] \<or> Resource r = Resource req)
      \<and> (Name req = [] \<or> Name r = Name req))"

text \<open>
  Modelled from the spec: the data store, whose code is outside the excerpt. ``Keyed by
  (ResourceKey, RV, Action) \<rightarrow> raw payload bytes; immutable once written''; it ``supports
  point get [and] ordered iteration'' under a key prefix. The store is the list of its
  records in the order of iteration.
\<close>

type_synonym memDataStore = "(DataKey \<times> bytes) list"

definition mem_dataStore_Save :: "DataKey \<Rightarrow> bytes \<Rightarrow> memDataStore \<Rightarrow> error option \<times> memDataStore" where
  "mem_dataStore_Save key val d = (None, d @ [(key, val)])"

definition mem_dataStore_Get :: "memDataStore \<Rightarrow> DataKey \<Rightarrow> error + ReadCloser" where
  "mem_dataStore_Get d key =
     (case map_of d key of None \<Rightarrow> Inl ErrNotFound | Some val \<Rightarrow> Inr (ReadCloser val None))"

definition mem_dataStore_Keys :: "memDataStore \<Rightarrow> ListRequestKey \<Rightarrow> (error + DataKey) list" where
  "mem_dataStore_Keys d req = map Inr (filter (mem_matches req) (map fst d))"

text \<open>
  Modelled from the spec: the metadata store, whose code is outside the excerpt. It gives
  ``(a) latest: the MetaRecord with the highest RV for a key where the most recent action
  is not Deleted; (b) at RV: the MetaRecord whose RV is the greatest RV \<le> a requested
  RV'', and ``latest when atRV = 0''. The store is the list of its records in the order
  of iteration, and \<open>mm_fault\<close>, when set, is the error every read of the underlying
  engine fails with.
\<close>

record memMetaStore =
  mm_fault :: "error option"
  mm_records :: "MetaDataObj list"

definition mem_metaStore_Save :: "MetaDataObj \<Rightarrow> memMetaStore \<Rightarrow> error option \<times> memMetaStore" where
  "mem_metaStore_Save obj m = (None, m\<lparr>mm_records := mm_records m @ [obj]\<rparr>)"

definition newest :: "MetaDataKey list \<Rightarrow> MetaDataKey option" where
  "newest rs =
     fold (\<lambda>r best.
             case best of
               None \<Rightarrow> Some r
             | Some b \<Rightarrow> if ResourceVersion r > ResourceVersion b then Some r else Some b)
          rs None"

definition mem_GetLatestResourceKey :: "memMetaStore \<Rightarrow> MetaGetRequestKey \<Rightarrow> error + MetaDataKey" where
  "mem_GetLatestResourceKey m key =
     (case mm_fault m of
        Some err \<Rightarrow> Inl err
      | None \<Rightarrow>
          (case newest (filter (\<lambda>r. objectOf r = key) (map meta_Key (mm_records m))) of
             None \<Rightarrow> Inl ErrNotFound
           | Some found \<Rightarrow>
               if Action found = DataActionDeleted then Inl ErrNotFound else Inr found))"

definition mem_GetResourceKeyAtRevision ::
  "memMetaStore \<Rightarrow> MetaGetRequestKey \<Rightarrow> int \<Rightarrow> error + MetaDataKey" where
  "mem_GetResourceKeyAtRevision m key rv =
     (if rv = 0 then mem_GetLatestResourceKey m key
      else
        (case mm_fault m of
           Some err \<Rightarrow> Inl err
         | None \<Rightarrow>
             (case newest (filter (\<lambda>r. objectOf r = key \<and> ResourceVersion r \<le> rv)
                             (map meta_Key (mm_records m))) of
                None \<Rightarrow> Inl ErrNotFound
              | Some found \<Rightarrow> Inr found)))"

text \<open>
  Modelled from the spec: the scan of the metadata store ``at'' a version, for a key
  prefix, ``in stable (store-defined) order'': of every object under the prefix, the
  record of the greatest version at or below the requested one (any version when the
  requested one is 0), unless that record is a deletion.
\<close>

definition mem_ListResourceKeysAtRevision ::
  "memMetaStore \<Rightarrow> MetaListRequestKey \<Rightarrow> int \<Rightarrow> (error + MetaDataKey) list" where
  "mem_ListResourceKeysAtRevision m req rv =
     (case mm_fault m of
        Some err \<Rightarrow> [Inl err]
      | None \<Rightarrow>
          (let visible = filter (\<lambda>r. mem_matches req r \<and> (rv = 0 \<or> ResourceVersion r \<le> rv))
                           (map meta_Key (mm_records m))
           in map Inr
                (filter (\<lambda>r. Action r \<noteq> DataActionDeleted
                           \<and> list_all (\<lambda>r'. if objectOf r' = objectOf r
                                             then ResourceVersion r' \<le> ResourceVersion r
                                             else True) visible)
                   visible)))"

text \<open>
  Modelled from the spec: the event store, whose code is outside the excerpt, an
  ``append-only log of write events''.
\<close>

definition mem_eventStore_Save :: "Event \<Rightarrow> Event list \<Rightarrow> error option \<times> Event list" where
  "mem_eventStore_Save ev e = (None, e @ [ev])"

text \<open>
  Modelled from the spec: the token codec, whose code is outside the excerpt, ``an opaque
  string that must round-trip {StartOffset, ResourceVersion, SortAscending} losslessly''.
  Numbers are written in unary after their sign.
\<close>

definition encodeInt :: "int \<Rightarrow> string" where
  "encodeInt i = (if i < 0 then CHR ''-'' else CHR ''+'') # replicate (nat \<bar>i\<bar>) CHR ''1''"

definition decodeInt :: "string \<Rightarrow> int option" where
  "decodeInt s =
     (case s of
        [] \<Rightarrow> None
      | x # r \<Rightarrow>
          if \<not> list_all (\<lambda>ch. ch = CHR ''1'') r then None
          else if x = CHR ''-'' then Some (- int (length r))
          else if x = CHR ''+'' then Some (int (length r))
          else None)"

definition mem_ContinueToken_String :: "ContinueToken \<Rightarrow> string" where
  "mem_ContinueToken_String t =
     encodeInt (StartOffset t) @ ''/'' @ encodeInt (tok_ResourceVersion t) @ ''/''
       @ (if SortAscending t then ''a'' else ''d'')"

definition mem_GetContinueToken :: "string \<Rightarrow> error + ContinueToken" where
  "mem_GetContinueToken s =
     (case Split s CHR ''/'' of
        [a, b, dir] \<Rightarrow>
          (case (decodeInt a, decodeInt b) of
             (Some x, Some y) \<Rightarrow>
               if dir = ''a''
               then Inr \<lparr>StartOffset = x, tok_ResourceVersion = y, SortAscending = True\<rparr>
               else if dir = ''d''
               then Inr \<lparr>StartOffset = x, tok_ResourceVersion = y, SortAscending = False\<rparr>
               else Inl (StoreError ''invalid token'')
           | _ \<Rightarrow> Inl (StoreError ''invalid token''))
      | _ \<Rightarrow> Inl (StoreError ''invalid token''))"

definition memCollaborators :: "(int, memDataStore, memMetaStore, Event list) collaborators" where
  "memCollaborators =
     \<lparr>Generate = mem_Generate,
      Validate = mem_Validate,
      BuildDocument = mem_BuildDocument,
      dataStore_Save = mem_dataStore_Save,
      dataStore_Get = mem_dataStore_Get,
      dataStore_Keys = mem_dataStore_Keys,
      metaStore_Save = mem_metaStore_Save,
      metaStore_GetLatestResourceKey = mem_GetLatestResourceKey,
      metaStore_GetResourceKeyAtRevision = mem_GetResourceKeyAtRevision,
      metaStore_ListResourceKeysAtRevision = mem_ListResourceKeysAtRevision,
      eventStore_Save = mem_eventStore_Save,
      GetContinueToken = mem_GetContinueToken,
      ContinueToken_String = mem_ContinueToken_String\<rparr>"

section \<open>Example inputs\<close>

text \<open>
  One object, \<open>ns/g/r/a\<close>, and the backends that the in-memory collaborators reach
  from the empty one: after the object is created, and after it is then updated; an
  empty backend whose metadata store fails every read; and collaborators whose metadata
  store refuses every write.
\<close>

definition exKey :: ResourceKey where
  "exKey = \<lparr>Namespace = ''ns'', Group = ''g'', Resource = ''r'', Name = ''a''\<rparr>"

definition exEmpty :: "(int, memDataStore, memMetaStore, Event list) kvStorageBackend" where
  "exEmpty = \<lparr>snowflake = 0, dataStore = [],
                metaStore = \<lparr>mm_fault = None, mm_records = []\<rparr>, eventStore = []\<rparr>"

definition exAdded :: WriteEvent where
  "exAdded = \<lparr>ev_Type = WatchEvent_ADDED, ev_Key = exKey, ev_Value = ''v1'',
              ev_Folder = ''f'', ev_PreviousRV = 0\<rparr>"

definition exModified :: WriteEvent where
  "exModified = \<lparr>ev_Type = WatchEvent_MODIFIED, ev_Key = exKey, ev_Value = ''v2'',
                 ev_Folder = ''f'', ev_PreviousRV = 1\<rparr>"

definition exLive :: "(int, memDataStore, memMetaStore, Event list) kvStorageBackend" where
  "exLive = snd (WriteEvent memCollaborators exEmpty exAdded)"

definition exUpdated :: "(int, memDataStore, memMetaStore, Event list) kvStorageBackend" where
  "exUpdated = snd (WriteEvent memCollaborators exLive exModified)"

definition exFaulty :: "(int, memDataStore, memMetaStore, Event list) kvStorageBackend" where
  "exFaulty = exEmpty\<lparr>metaStore := \<lparr>mm_fault = Some (StoreError ''kv unavailable''), mm_records = []\<rparr>\<rparr>"

definition metaSaveFails :: "(int, memDataStore, memMetaStore, Event list) collaborators" where
  "metaSaveFails = memCollaborators\<lparr>metaStore_Save := \<lambda>obj m. (Some (StoreError ''disk full''), m)\<rparr>"

text \<open>
  The object deleted after its update, and created again after that; the deleted object
  behind a metadata store that fails every read; and requests for the history and for
  the trash of the object.
\<close>

definition exDeleteEvent :: WriteEvent where
  "exDeleteEvent = \<lparr>ev_Type = WatchEvent_DELETED, ev_Key = exKey, ev_Value = ''v3'',
                    ev_Folder = ''f'', ev_PreviousRV = 2\<rparr>"

definition exDeleted :: "(int, memDataStore, memMetaStore, Event list) kvStorageBackend" where
  "exDeleted = snd (WriteEvent memCollaborators exUpdated exDeleteEvent)"

definition exRecreated :: "(int, memDataStore, memMetaStore, Event list) kvStorageBackend" where
  "exRecreated = snd (WriteEvent memCollaborators exDeleted (exAdded\<lparr>ev_Value := ''v4''\<rparr>))"

definition exDeletedFaulty ::
  "(int, memDataStore, memMetaStore, Event list) kvStorageBackend" where
  "exDeletedFaulty =
     exDeleted\<lparr>metaStore := (metaStore exDeleted)\<lparr>mm_fault := Some (StoreError ''kv unavailable'')\<rparr>\<rparr>"

definition exHistoryRequest :: ListRequest where
  "exHistoryRequest =
     \<lparr>req_Key = Some exKey, req_NextPageToken = [], req_ResourceVersion = 0, req_Limit = 10,
      req_Source = ListRequest_Source_Other 1,
      req_VersionMatchV2 = ResourceVersionMatchV2_Other 0\<rparr>"

definition exTrashRequest :: ListRequest where
  "exTrashRequest = exHistoryRequest\<lparr>req_Source := ListRequest_TRASH\<rparr>"

definition exRevision :: "int \<Rightarrow> DataAction \<Rightarrow> DataKey" where
  "exRevision rv action =
     \<lparr>Namespace = ''ns'', Group = ''g'', Resource = ''r'', Name = ''a'',
      ResourceVersion = rv, Action = action\<rparr>"

abbreviation rev1 :: DataKey where "rev1 \<equiv> exRevision 1 DataActionCreated"
abbreviation rev2 :: DataKey where "rev2 \<equiv> exRevision 2 DataActionUpdated"
abbreviation rev3 :: DataKey where "rev3 \<equiv> exRevision 3 DataActionDeleted"
abbreviation rev4 :: DataKey where "rev4 \<equiv> exRevision 4 DataActionCreated"

text \<open>
  A namespace with three objects of one kind, in the order of the data store's keys (by
  name, then by version): \<open>a\<close> created at 5, \<open>b\<close> created at 2 and deleted at 6, \<open>c\<close>
  created at 3.
\<close>

definition exObject :: "string \<Rightarrow> int \<Rightarrow> DataAction \<Rightarrow> DataKey" where
  "exObject name rv action =
     \<lparr>Namespace = ''ns'', Group = ''g'', Resource = ''r'', Name = name,
      ResourceVersion = rv, Action = action\<rparr>"

definition exStatsKeys :: "DataKey list" where
  "exStatsKeys =
     [exObject ''a'' 5 DataActionCreated, exObject ''b'' 2 DataActionCreated,
      exObject ''b'' 6 DataActionDeleted, exObject ''c'' 3 DataActionCreated]"

definition exStatsStore :: "(int, memDataStore, memMetaStore, Event list) kvStorageBackend" where
  "exStatsStore =
     \<lparr>snowflake = 6, dataStore = map (\<lambda>dk. (dk, ''{}'')) exStatsKeys,
      metaStore = \<lparr>mm_fault = None, mm_records = []\<rparr>, eventStore = []\<rparr>"





text \<open>
  A backend whose snowflake node stands at 4 while its stores already hold object \<open>a\<close>
  at version 7, written by a writer with a later clock, beside object \<open>b\<close> at version
  1; a request for the first page of one object per page; and the iterator that
  \<^verbatim>\<open>ListIterator\<close> builds for it.
\<close>

definition exMetaKey :: "string \<Rightarrow> int \<Rightarrow> MetaDataKey" where
  "exMetaKey name rv =
     \<lparr>Namespace = ''ns'', Group = ''g'', Resource = ''r'', Name = name,
      ResourceVersion = rv, Action = DataActionCreated, Folder = ''f''\<rparr>"

definition exConcurrent :: "(int, memDataStore, memMetaStore, Event list) kvStorageBackend" where
  "exConcurrent =
     \<lparr>snowflake = 4,
      dataStore = [(exObject ''a'' 7 DataActionCreated, ''va''),
                   (exObject ''b'' 1 DataActionCreated, ''vb'')],
      metaStore =
        \<lparr>mm_fault = None,
         mm_records = [\<lparr>meta_Key = exMetaKey ''a'' 7, meta_Value = IndexableDocument ''va''\<rparr>,
                       \<lparr>meta_Key = exMetaKey ''b'' 1, meta_Value = IndexableDocument ''vb''\<rparr>]\<rparr>,
      eventStore = []\<rparr>"

definition exListRequest :: ListRequest where
  "exListRequest =
     \<lparr>req_Key = Some \<lparr>Namespace = ''ns'', Group = ''g'', Resource = ''r'', Name = []\<rparr>,
      req_NextPageToken = [], req_ResourceVersion = 0, req_Limit = 1,
      req_Source = ListRequest_Source_Other 0,
      req_VersionMatchV2 = ResourceVersionMatchV2_Other 0\<rparr>"

definition exFirstPage :: kvListIterator where
  "exFirstPage =
     \<lparr>li_keys = [exMetaKey ''a'' 7, exMetaKey ''b'' 1], li_currentIndex = - 1, li_listRV = 5,
      li_offset = 0, li_rv = 0, li_err = None, li_value = []\<rparr>"

text \<open>An iterator over one metadata key whose data record is missing from the data store.\<close>

definition exDangling :: kvListIterator where
  "exDangling =
     \<lparr>li_keys = [\<lparr>Namespace = ''ns'', Group = ''g'', Resource = ''r'', Name = ''a'',
                   ResourceVersion = 1, Action = DataActionCreated, Folder = ''f''\<rparr>],
      li_currentIndex = - 1, li_listRV = 2, li_offset = 0, li_rv = 0, li_err = None,
      li_value = []\<rparr>"

section \<open>Evaluation of the examples\<close>

lemmas mem_defs = memCollaborators_def mem_Generate_def mem_Validate_def mem_BuildDocument_def
  mem_dataStore_Save_def mem_dataStore_Get_def mem_dataStore_Keys_def mem_metaStore_Save_def
  mem_GetLatestResourceKey_def mem_GetResourceKeyAtRevision_def
  mem_ListResourceKeysAtRevision_def mem_eventStore_Save_def newest_def objectOf_def
  mem_matches_def

lemmas WriteEvent_defs = WriteEvent_def WriteEvent_action_def WriteEvent_persist_def
    WriteEvent_DataKey_def WriteEvent_MetaDataObj_def WriteEvent_Event_def

lemmas ex_defs = exKey_def exEmpty_def exAdded_def exFaulty_def metaSaveFails_def

lemma int64_id: "- (2 ^ 63) \<le> x \<Longrightarrow> x < 2 ^ 63 \<Longrightarrow> int64 x = x"
  by (simp add: int64_def)

lemma exLive_eq:
  "exLive =
   \<lparr>snowflake = 1,
     dataStore =
       [(\<lparr>Namespace = ''ns'', Group = ''g'', Resource = ''r'', Name = ''a'',
            ResourceVersion = 1, Action = DataActionCreated\<rparr>,
         ''v1'')],
     metaStore =
       \<lparr>mm_fault = None,
          mm_records =
            [\<lparr>meta_Key =
                \<lparr>Namespace = ''ns'', Group = ''g'', Resource = ''r'',
                   Name = ''a'', ResourceVersion = 1,
                   Action = DataActionCreated, Folder = ''f''\<rparr>,
                meta_Value = IndexableDocument ''v1''\<rparr>]\<rparr>,
     eventStore =
       [\<lparr>Namespace = ''ns'', Group = ''g'', Resource = ''r'', Name = ''a'',
           ResourceVersion = 1, Action = DataActionCreated, Folder = ''f'',
           PreviousRV = 0\<rparr>]\<rparr>"
  by (simp add: exLive_def WriteEvent_defs mem_defs ex_defs)

lemma exUpdated_eq:
  "exUpdated =
     \<lparr>snowflake = 2,
      dataStore =
        [(\<lparr>Namespace = ''ns'', Group = ''g'', Resource = ''r'', Name = ''a'',
           ResourceVersion = 1, Action = DataActionCreated\<rparr>, ''v1''),
         (\<lparr>Namespace = ''ns'', Group = ''g'', Resource = ''r'', Name = ''a'',
           ResourceVersion = 2, Action = DataActionUpdated\<rparr>, ''v2'')],
      metaStore =
        \<lparr>mm_fault = None,
         mm_records =
           [\<lparr>meta_Key =
               \<lparr>Namespace = ''ns'', Group = ''g'', Resource = ''r'', Name = ''a'',
                ResourceVersion = 1, Action = DataActionCreated, Folder = ''f''\<rparr>,
             meta_Value = IndexableDocument ''v1''\<rparr>,
            \<lparr>meta_Key =
               \<lparr>Namespace = ''ns'', Group = ''g'', Resource = ''r'', Name = ''a'',
                ResourceVersion = 2, Action = DataActionUpdated, Folder = ''f''\<rparr>,
             meta_Value = IndexableDocument ''v2''\<rparr>]\<rparr>,
      eventStore =
        [\<lparr>Namespace = ''ns'', Group = ''g'', Resource = ''r'', Name = ''a'',
          ResourceVersion = 1, Action = DataActionCreated, Folder = ''f'', PreviousRV = 0\<rparr>,
         \<lparr>Namespace = ''ns'', Group = ''g'', Resource = ''r'', Name = ''a'',
          ResourceVersion = 2, Action = DataActionUpdated, Folder = ''f'', PreviousRV = 1\<rparr>]\<rparr>"
  by (simp add: exUpdated_def exLive_eq exModified_def WriteEvent_defs mem_defs ex_defs)

section \<open>The write path\<close>

text \<open>
  C3. A write of type \<^verbatim>\<open>ADDED\<close> that passes validation looks the latest metadata key
  of the object up before anything is written. If the lookup finds a key, the write fails
  with \<open>ErrResourceAlreadyExists\<close>; if it fails with an error other than \<open>ErrNotFound\<close>,
  the write fails with that error, wrapped; in both cases the data, metadata and event
  stores are left as they were. Only when the lookup returns \<open>ErrNotFound\<close> does the
  write go on, to the document builder and the three saves.
\<close>

theorem WriteEvent_Added_checks_latest:
  assumes "Validate c event = None"
    and "ev_Type event = WatchEvent_ADDED"
    and "Generate c (snowflake k) = (rv, g)"
  shows "(\<forall>found. metaStore_GetLatestResourceKey c (metaStore k) (ev_Key event) = Inr found \<longrightarrow>
            fst (WriteEvent c k event) = Inl ErrResourceAlreadyExists)
       \<and> (\<forall>err. metaStore_GetLatestResourceKey c (metaStore k) (ev_Key event) = Inl err
                 \<and> err \<noteq> ErrNotFound \<longrightarrow>
            fst (WriteEvent c k event) =
              Inl (Wrapped ''failed to check if resource exists'' err))
       \<and> (metaStore_GetLatestResourceKey c (metaStore k) (ev_Key event) \<noteq> Inl ErrNotFound \<longrightarrow>
            dataStore (snd (WriteEvent c k event)) = dataStore k
            \<and> metaStore (snd (WriteEvent c k event)) = metaStore k
            \<and> eventStore (snd (WriteEvent c k event)) = eventStore k)
       \<and> (metaStore_GetLatestResourceKey c (metaStore k) (ev_Key event) = Inl ErrNotFound \<longrightarrow>
            WriteEvent c k event =
              (case BuildDocument c (ev_Key event) rv (ev_Value event) of
                 Inl err \<Rightarrow> (Inl (Wrapped ''failed to build document'' err), k\<lparr>snowflake := g\<rparr>)
               | Inr doc \<Rightarrow>
                   WriteEvent_persist c (k\<lparr>snowflake := g\<rparr>) event rv DataActionCreated doc))"
  using assms by (auto simp add: WriteEvent_def WriteEvent_action_def split: sum.splits)

theorem WriteEvent_Added_checks_latest_witness:
  "fst (WriteEvent memCollaborators exLive exAdded) = Inl ErrResourceAlreadyExists
   \<and> dataStore (snd (WriteEvent memCollaborators exLive exAdded)) = dataStore exLive
   \<and> metaStore (snd (WriteEvent memCollaborators exLive exAdded)) = metaStore exLive
   \<and> eventStore (snd (WriteEvent memCollaborators exLive exAdded)) = eventStore exLive
   \<and> fst (WriteEvent memCollaborators exFaulty exAdded) =
       Inl (Wrapped ''failed to check if resource exists'' (StoreError ''kv unavailable''))
   \<and> dataStore (snd (WriteEvent memCollaborators exFaulty exAdded)) = []
   \<and> fst (WriteEvent memCollaborators exEmpty exAdded) = Inr 1"
  using WriteEvent_Added_checks_latest [of memCollaborators exAdded exLive 2 2]
    WriteEvent_Added_checks_latest [of memCollaborators exAdded exFaulty 1 1]
    WriteEvent_Added_checks_latest [of memCollaborators exAdded exEmpty 1 1]
  by (simp add: exLive_eq mem_defs ex_defs WriteEvent_persist_def
    WriteEvent_DataKey_def WriteEvent_MetaDataObj_def WriteEvent_Event_def)

text \<open>
  C4. A write that is accepted (validated, its action resolved, its document built) saves
  a data record, then a metadata record with the built document and the folder, then an
  event record with the caller's previous version, all three under the one minted
  resource version. The first save that fails ends the write with its error, and the
  stores keep what the earlier saves wrote: after a failed metadata save the data store
  is the one the data save returned, and the event store is untouched.
\<close>

theorem WriteEvent_persists_in_order:
  assumes "Validate c event = None"
    and "Generate c (snowflake k) = (rv, g)"
    and "WriteEvent_action c k event = Inr action"
    and "BuildDocument c (ev_Key event) rv (ev_Value event) = Inr doc"
    and "dataStore_Save c (WriteEvent_DataKey event rv action) (ev_Value event) (dataStore k)
           = (r1, d)"
    and "metaStore_Save c (WriteEvent_MetaDataObj event rv action doc) (metaStore k) = (r2, m)"
    and "eventStore_Save c (WriteEvent_Event event rv action) (eventStore k) = (r3, e)"
  shows "WriteEvent c k event =
     (case r1 of
        Some err \<Rightarrow>
          (Inl (Wrapped ''failed to write data'' err),
           \<lparr>snowflake = g, dataStore = d, metaStore = metaStore k, eventStore = eventStore k\<rparr>)
      | None \<Rightarrow>
          (case r2 of
             Some err \<Rightarrow>
               (Inl (Wrapped ''failed to write metadata'' err),
                \<lparr>snowflake = g, dataStore = d, metaStore = m, eventStore = eventStore k\<rparr>)
           | None \<Rightarrow>
               (case r3 of
                  Some err \<Rightarrow>
                    (Inl (Wrapped ''failed to save event'' err),
                     \<lparr>snowflake = g, dataStore = d, metaStore = m, eventStore = e\<rparr>)
                | None \<Rightarrow>
                    (Inr rv, \<lparr>snowflake = g, dataStore = d, metaStore = m, eventStore = e\<rparr>))))
     \<and> ResourceVersion (WriteEvent_DataKey event rv action) = rv
     \<and> ResourceVersion (meta_Key (WriteEvent_MetaDataObj event rv action doc)) = rv
     \<and> meta_Value (WriteEvent_MetaDataObj event rv action doc) = doc
     \<and> Folder (meta_Key (WriteEvent_MetaDataObj event rv action doc)) = ev_Folder event
     \<and> ResourceVersion (WriteEvent_Event event rv action) = rv
     \<and> PreviousRV (WriteEvent_Event event rv action) = ev_PreviousRV event"
  using assms
  by (cases k) (simp add: WriteEvent_def WriteEvent_persist_def WriteEvent_DataKey_def
      WriteEvent_MetaDataObj_def WriteEvent_Event_def split: option.splits)


theorem WriteEvent_persists_in_order_witness:
  "WriteEvent metaSaveFails exEmpty exAdded =
     (Inl (Wrapped ''failed to write metadata'' (StoreError ''disk full'')),
      \<lparr>snowflake = 1,
       dataStore = [(\<lparr>Namespace = ''ns'', Group = ''g'', Resource = ''r'', Name = ''a'',
                      ResourceVersion = 1, Action = DataActionCreated\<rparr>, ''v1'')],
       metaStore = \<lparr>mm_fault = None, mm_records = []\<rparr>,
       eventStore = []\<rparr>)"
  using WriteEvent_persists_in_order [of metaSaveFails exAdded exEmpty 1 1 DataActionCreated
      "IndexableDocument ''v1''" None
      "[(\<lparr>Namespace = ''ns'', Group = ''g'', Resource = ''r'', Name = ''a'',
                      ResourceVersion = 1, Action = DataActionCreated\<rparr>, ''v1'')]"
      "Some (StoreError ''disk full'')" "\<lparr>mm_fault = None, mm_records = []\<rparr>"
      None "[\<lparr>Namespace = ''ns'', Group = ''g'', Resource = ''r'', Name = ''a'',
           ResourceVersion = 1, Action = DataActionCreated, Folder = ''f'',
           PreviousRV = 0\<rparr>]"]
  by (simp add: mem_defs ex_defs WriteEvent_action_def
    WriteEvent_DataKey_def WriteEvent_MetaDataObj_def WriteEvent_Event_def)

section \<open>Point reads\<close>

lemma greatest_version_fold:
  "fold (\<lambda>r best. case best of None \<Rightarrow> Some r
                    | Some b \<Rightarrow> if ResourceVersion r > ResourceVersion b then Some r else Some b)
        rs (Some a) = Some b
   \<Longrightarrow> (b = a \<or> b \<in> set rs) \<and> ResourceVersion a \<le> ResourceVersion b
       \<and> (\<forall>r\<in>set rs. ResourceVersion r \<le> ResourceVersion b)"
proof (induction rs arbitrary: a)
  case Nil
  then show ?case by simp
next
  case (Cons x xs)
  show ?case
  proof (cases "ResourceVersion x > ResourceVersion a")
    case True
    with Cons.prems Cons.IH [of x] show ?thesis by force
  next
    case False
    with Cons.prems Cons.IH [of a] show ?thesis by force
  qed
qed

lemma newest_Some:
  "newest rs = Some b \<Longrightarrow> b \<in> set rs \<and> (\<forall>r\<in>set rs. ResourceVersion r \<le> ResourceVersion b)"
proof (cases rs)
  case Nil
  assume "newest rs = Some b"
  with Nil show ?thesis by (simp add: newest_def)
next
  case (Cons x xs)
  assume "newest rs = Some b"
  with Cons greatest_version_fold [of xs x b] show ?thesis by (auto simp: newest_def)
qed

lemma mem_at_revision_found:
  assumes "mem_GetResourceKeyAtRevision m key rv = Inr meta"
  shows "meta \<in> meta_Key ` set (mm_records m) \<and> objectOf meta = key
     \<and> (if rv = 0 then Action meta \<noteq> DataActionDeleted else ResourceVersion meta \<le> rv)
     \<and> (\<forall>r \<in> meta_Key ` set (mm_records m).
           objectOf r = key \<and> (rv = 0 \<or> ResourceVersion r \<le> rv)
             \<longrightarrow> ResourceVersion r \<le> ResourceVersion meta)"
proof (cases "rv = 0")
  case True
  with assms obtain found where
    n: "newest (filter (\<lambda>r. objectOf r = key) (map meta_Key (mm_records m))) = Some found"
    and f: "Action found \<noteq> DataActionDeleted" "found = meta"
    by (auto simp: mem_GetResourceKeyAtRevision_def mem_GetLatestResourceKey_def
        split: option.splits if_splits)
  from newest_Some [OF n] f True show ?thesis by auto
next
  case False
  with assms have
    n: "newest (filter (\<lambda>r. objectOf r = key \<and> ResourceVersion r \<le> rv)
                 (map meta_Key (mm_records m))) = Some meta"
    by (auto simp: mem_GetResourceKeyAtRevision_def split: option.splits if_splits)
  from newest_Some [OF n] False show ?thesis by auto
qed

lemma ReadResource_cases:
  assumes "rr_Key req = Some key"
  shows "ReadResource c k req =
     (case metaStore_GetResourceKeyAtRevision c (metaStore k) key (rr_ResourceVersion req) of
        Inl err \<Rightarrow>
          if err = ErrNotFound then errorResponse StatusNotFound ''not found''
          else errorResponse StatusInternalServerError (Error err)
      | Inr meta \<Rightarrow>
          (case dataStore_Get c (dataStore k)
                  \<lparr>Namespace = Namespace key, Group = Group key,
                   Resource = Resource key, Name = Name key,
                   ResourceVersion = ResourceVersion meta, Action = Action meta\<rparr> of
             Inl err \<Rightarrow> errorResponse StatusInternalServerError (Error err)
           | Inr data \<Rightarrow>
               (case ReadAll data of
                  (val, Some err) \<Rightarrow> errorResponse StatusInternalServerError (Error err)
                | (val, None) \<Rightarrow>
                    \<lparr>resp_Key = Some key, resp_ResourceVersion = ResourceVersion meta,
                     resp_Value = val, resp_Folder = Folder meta, resp_Error = None\<rparr>)))"
  using assms by (simp add: ReadResource_def)

text \<open>
  C8. \<^verbatim>\<open>ReadResource\<close> hands the request's key and version to the metadata store's
  resolver. With the resolver of the specification (the record of the greatest version at
  or below the requested one; the latest record, if it is not a deletion, when the
  requested version is 0), a resolution that ends in \<open>ErrNotFound\<close> gives the 404
  response and any other resolver error a 500 response; a resolved record is a record of
  the object in the store, of the greatest admissible version, and the response is then
  the payload of the data record of that version and action, with the folder and the
  version of the resolved record, or a 500 response when the data store fails. The
  response has code 404 exactly when the resolution returned \<open>ErrNotFound\<close>.
\<close>

theorem ReadResource_resolves_at_revision:
  fixes c :: "('g, 'd, memMetaStore, 'e) collaborators"
  assumes "rr_Key req = Some key"
    and "metaStore_GetResourceKeyAtRevision c = mem_GetResourceKeyAtRevision"
  shows "(case mem_GetResourceKeyAtRevision (metaStore k) key (rr_ResourceVersion req) of
            Inl err \<Rightarrow>
              ReadResource c k req =
                (if err = ErrNotFound then errorResponse StatusNotFound ''not found''
                 else errorResponse StatusInternalServerError (Error err))
          | Inr meta \<Rightarrow>
              meta \<in> meta_Key ` set (mm_records (metaStore k)) \<and> objectOf meta = key
              \<and> (if rr_ResourceVersion req = 0 then Action meta \<noteq> DataActionDeleted
                  else ResourceVersion meta \<le> rr_ResourceVersion req)
              \<and> (\<forall>r \<in> meta_Key ` set (mm_records (metaStore k)).
                    objectOf r = key
                      \<and> (rr_ResourceVersion req = 0 \<or> ResourceVersion r \<le> rr_ResourceVersion req)
                    \<longrightarrow> ResourceVersion r \<le> ResourceVersion meta)
              \<and> ReadResource c k req =
                  (case dataStore_Get c (dataStore k)
                          \<lparr>Namespace = Namespace key, Group = Group key,
                           Resource = Resource key, Name = Name key,
                           ResourceVersion = ResourceVersion meta, Action = Action meta\<rparr> of
                     Inl err \<Rightarrow> errorResponse StatusInternalServerError (Error err)
                   | Inr data \<Rightarrow>
                       (case ReadAll data of
                          (val, Some err) \<Rightarrow> errorResponse StatusInternalServerError (Error err)
                        | (val, None) \<Rightarrow>
                            \<lparr>resp_Key = Some key, resp_ResourceVersion = ResourceVersion meta,
                             resp_Value = val, resp_Folder = Folder meta,
                             resp_Error = None\<rparr>)))
     \<and> ((map_option Code (resp_Error (ReadResource c k req)) = Some StatusNotFound)
          = (mem_GetResourceKeyAtRevision (metaStore k) key (rr_ResourceVersion req)
               = Inl ErrNotFound))"
proof -
  let ?r = "mem_GetResourceKeyAtRevision (metaStore k) key (rr_ResourceVersion req)"
  have rr: "ReadResource c k req =
     (case ?r of
        Inl err \<Rightarrow>
          if err = ErrNotFound then errorResponse StatusNotFound ''not found''
          else errorResponse StatusInternalServerError (Error err)
      | Inr meta \<Rightarrow>
          (case dataStore_Get c (dataStore k)
                  \<lparr>Namespace = Namespace key, Group = Group key,
                   Resource = Resource key, Name = Name key,
                   ResourceVersion = ResourceVersion meta, Action = Action meta\<rparr> of
             Inl err \<Rightarrow> errorResponse StatusInternalServerError (Error err)
           | Inr data \<Rightarrow>
               (case ReadAll data of
                  (val, Some err) \<Rightarrow> errorResponse StatusInternalServerError (Error err)
                | (val, None) \<Rightarrow>
                    \<lparr>resp_Key = Some key, resp_ResourceVersion = ResourceVersion meta,
                     resp_Value = val, resp_Folder = Folder meta, resp_Error = None\<rparr>)))"
    using ReadResource_cases [OF assms(1), of c k] assms(2) by simp
  show ?thesis
  proof (cases ?r)
    case (Inl err)
    with rr show ?thesis
      by (simp add: errorResponse_def StatusNotFound_def StatusInternalServerError_def)
  next
    case (Inr meta)
    from mem_at_revision_found [OF Inr] rr Inr show ?thesis
      by (auto simp: errorResponse_def StatusNotFound_def StatusInternalServerError_def
          split: sum.splits option.splits prod.splits)
  qed
qed

theorem ReadResource_resolves_at_revision_witness:
  "ReadResource memCollaborators exUpdated \<lparr>rr_Key = Some exKey, rr_ResourceVersion = 1\<rparr> =
     \<lparr>resp_Key = Some exKey, resp_ResourceVersion = 1, resp_Value = ''v1'',
      resp_Folder = ''f'', resp_Error = None\<rparr>
   \<and> ReadResource memCollaborators exUpdated \<lparr>rr_Key = Some exKey, rr_ResourceVersion = 0\<rparr> =
     \<lparr>resp_Key = Some exKey, resp_ResourceVersion = 2, resp_Value = ''v2'',
      resp_Folder = ''f'', resp_Error = None\<rparr>
   \<and> ReadResource memCollaborators exEmpty \<lparr>rr_Key = Some exKey, rr_ResourceVersion = 0\<rparr> =
     errorResponse StatusNotFound ''not found''
   \<and> ReadResource memCollaborators exFaulty \<lparr>rr_Key = Some exKey, rr_ResourceVersion = 0\<rparr> =
     errorResponse StatusInternalServerError ''kv unavailable''"
  using
    ReadResource_resolves_at_revision
      [of "\<lparr>rr_Key = Some exKey, rr_ResourceVersion = 1\<rparr>" exKey memCollaborators exUpdated]
    ReadResource_resolves_at_revision
      [of "\<lparr>rr_Key = Some exKey, rr_ResourceVersion = 0\<rparr>" exKey memCollaborators exUpdated]
    ReadResource_resolves_at_revision
      [of "\<lparr>rr_Key = Some exKey, rr_ResourceVersion = 0\<rparr>" exKey memCollaborators exEmpty]
    ReadResource_resolves_at_revision
      [of "\<lparr>rr_Key = Some exKey, rr_ResourceVersion = 0\<rparr>" exKey memCollaborators exFaulty]
  by (simp add: exUpdated_eq mem_defs ex_defs)

section \<open>The list iterator\<close>

text \<open>
  C10. \<^verbatim>\<open>kvListIterator.Error\<close> returns nil for every iterator. When \<^verbatim>\<open>Next\<close> stops
  because the data store fails to return the record under the cursor, or because reading
  its payload fails, \<^verbatim>\<open>Next\<close> returns false and records the error in the iterator, and
  \<^verbatim>\<open>Error\<close> is still nil, as it is after the \<^verbatim>\<open>Next\<close> that returns false at the end
  of the page.
\<close>

theorem kvListIterator_Error_always_nil:
  "kvListIterator_Error i = None
   \<and> (\<forall>n err. n = int64 (li_currentIndex i + 1) \<and> 0 \<le> n \<and> n < int (length (li_keys i))
         \<and> dataStore_Get c d (dataKeyOf (li_keys i ! nat n)) = Inl err \<longrightarrow>
        (\<exists>i'. kvListIterator_Next c d i = Inr (False, i') \<and> li_err i' = Some err
              \<and> kvListIterator_Error i' = None))
   \<and> (\<forall>n val err. n = int64 (li_currentIndex i + 1) \<and> 0 \<le> n \<and> n < int (length (li_keys i))
         \<and> dataStore_Get c d (dataKeyOf (li_keys i ! nat n)) = Inr (ReadCloser val (Some err)) \<longrightarrow>
        (\<exists>i'. kvListIterator_Next c d i = Inr (False, i') \<and> li_err i' = Some err
              \<and> kvListIterator_Error i' = None))
   \<and> (int (length (li_keys i)) \<le> int64 (li_currentIndex i + 1) \<longrightarrow>
        (\<exists>i'. kvListIterator_Next c d i = Inr (False, i') \<and> kvListIterator_Error i' = None))"
  by (simp add: kvListIterator_Error_def kvListIterator_Next_def Let_def)

theorem kvListIterator_Error_always_nil_witness:
  "kvListIterator_Next memCollaborators [] exDangling =
     Inr (False, exDangling\<lparr>li_currentIndex := 0, li_rv := 1, li_err := Some ErrNotFound\<rparr>)
   \<and> kvListIterator_Error
        (exDangling\<lparr>li_currentIndex := 0, li_rv := 1, li_err := Some ErrNotFound\<rparr>) = None
   \<and> kvListIterator_Next memCollaborators [] (exDangling\<lparr>li_currentIndex := 0\<rparr>) =
        Inr (False, exDangling\<lparr>li_currentIndex := 1\<rparr>)
   \<and> kvListIterator_Error (exDangling\<lparr>li_currentIndex := 1\<rparr>) = None"
  using kvListIterator_Error_always_nil [of exDangling memCollaborators "[]"]
    kvListIterator_Error_always_nil [of "exDangling\<lparr>li_currentIndex := 0\<rparr>" memCollaborators "[]"]
  by (simp add: exDangling_def int64_id kvListIterator_Next_def kvListIterator_Error_def
      dataKeyOf_def mem_defs)

section \<open>History and trash\<close>

lemma ListHistory_collect_append:
  "ListHistory_collect xs acc = Inr ks \<Longrightarrow> \<exists>new. ks = acc @ new"
  by (induction xs acc rule: ListHistory_collect.induct) auto

lemma trashKeys_snowflake [simp]:
  "trashKeys c (k\<lparr>snowflake := g\<rparr>) key historyKeys = trashKeys c k key historyKeys"
  by (simp add: trashKeys_def)

text \<open>What a successful \<open>ListHistory_iter\<close> has computed.\<close>

lemma ListHistory_iter_Inr:
  assumes "ListHistory_iter c k req = (Inr iter, k')"
    and "req_Key req = Some key"
    and "ListHistory_collect (dataStore_Keys c (dataStore k) key) [] = Inr historyKeys"
  shows "\<exists>lastSeenRV asc filtered.
           ListHistory_cursor c req = Inr (lastSeenRV, asc)
           \<and> versionMatchFilter req
                (if req_Source req = ListRequest_TRASH then trashKeys c k key historyKeys
                 else historyKeys) = Inr filtered
           \<and> hi_sortAscending iter = asc
           \<and> hi_keys iter =
               pagedKeys lastSeenRV asc
                 (sortKeys asc
                    (if req_Source req = ListRequest_TRASH then filtered
                     else liveHistory req filtered))"
  using assms
  by (auto simp: ListHistory_iter_def processTrashEntries_iter_def newHistoryIterator_def
      Let_def split: if_splits sum.splits prod.splits)

lemma versionMatchFilter_subset:
  "versionMatchFilter req ks = Inr filtered \<Longrightarrow> set filtered \<subseteq> set ks \<and> length filtered \<le> length ks"
  by (auto simp: versionMatchFilter_def split: ResourceVersionMatchV2.splits if_splits)

lemma set_sortKeys [simp]: "set (sortKeys asc ks) = set ks"
  by (simp add: sortKeys_def)

lemma length_sortKeys [simp]: "length (sortKeys asc ks) = length ks"
  by (simp add: sortKeys_def)

lemma mset_sortKeys [simp]: "mset (sortKeys asc ks) = mset ks"
  by (simp add: sortKeys_def)

lemma set_pagedKeys: "set (pagedKeys l asc ks) \<subseteq> set ks"
  by (auto simp: pagedKeys_def)

lemma length_pagedKeys: "length (pagedKeys l asc ks) \<le> length ks"
  by (simp add: pagedKeys_def)

lemma latestDelete_Some:
  assumes "latestDelete ks = Some l"
  shows "l \<in> set ks \<and> (\<forall>d\<in>set ks. ResourceVersion d \<le> ResourceVersion l)"
proof (cases ks)
  case Nil
  with assms show ?thesis by (simp add: latestDelete_def)
next
  case (Cons x xs)
  with assms greatest_version_fold [of xs x l] show ?thesis by (auto simp: latestDelete_def)
qed

lemma trashKeys_cases:
  "trashKeys c k key hs = []
   \<or> (\<exists>l. trashKeys c k key hs = [l]
          \<and> latestDelete (filter (\<lambda>key. Action key = DataActionDeleted) hs) = Some l
          \<and> metaStore_GetLatestResourceKey c (metaStore k) key = Inl ErrNotFound)"
  by (simp add: trashKeys_def split: sum.splits option.splits)

lemma trashKeys_props:
  "length (trashKeys c k key hs) \<le> 1
   \<and> (\<forall>e\<in>set (trashKeys c k key hs).
         e \<in> set hs \<and> Action e = DataActionDeleted
         \<and> (\<forall>d\<in>set hs. Action d = DataActionDeleted \<longrightarrow> ResourceVersion d \<le> ResourceVersion e))
   \<and> (trashKeys c k key hs \<noteq> [] \<longrightarrow>
         metaStore_GetLatestResourceKey c (metaStore k) key = Inl ErrNotFound)"
proof -
  from trashKeys_cases [of c k key hs] show ?thesis
  proof
    assume "trashKeys c k key hs = []"
    then show ?thesis by simp
  next
    assume "\<exists>l. trashKeys c k key hs = [l]
          \<and> latestDelete (filter (\<lambda>key. Action key = DataActionDeleted) hs) = Some l
          \<and> metaStore_GetLatestResourceKey c (metaStore k) key = Inl ErrNotFound"
    then obtain l where t: "trashKeys c k key hs = [l]"
      and l: "latestDelete (filter (\<lambda>key. Action key = DataActionDeleted) hs) = Some l"
      and n: "metaStore_GetLatestResourceKey c (metaStore k) key = Inl ErrNotFound"
      by blast
    from latestDelete_Some [OF l] t n show ?thesis by auto
  qed
qed

lemma exDeleted_history:
  "ListHistory_collect (dataStore_Keys memCollaborators (dataStore exDeleted) exKey) []
     = Inr [rev1, rev2, rev3]"
  by code_simp

lemma exRecreated_history:
  "ListHistory_collect (dataStore_Keys memCollaborators (dataStore exRecreated) exKey) []
     = Inr [rev1, rev2, rev3, rev4]"
  by code_simp

lemma exUpdated_history:
  "ListHistory_collect (dataStore_Keys memCollaborators (dataStore exUpdated) exKey) []
     = Inr [rev1, rev2]"
  by code_simp

lemma exDeleted_trash:
  "ListHistory_iter memCollaborators exDeleted exTrashRequest =
     (Inr (newHistoryIterator [rev3] 4 False), exDeleted\<lparr>snowflake := 4\<rparr>)"
  by code_simp

lemma exRecreated_trash:
  "ListHistory_iter memCollaborators exRecreated exTrashRequest =
     (Inr (newHistoryIterator [] 5 False), exRecreated\<lparr>snowflake := 5\<rparr>)"
  by code_simp

lemma exRecreated_lookup:
  "metaStore_GetLatestResourceKey memCollaborators (metaStore exRecreated) exKey =
     Inr \<lparr>Namespace = ''ns'', Group = ''g'', Resource = ''r'', Name = ''a'',
          ResourceVersion = 4, Action = DataActionCreated, Folder = ''f''\<rparr>"
  by code_simp

lemma exTrashRequest_fields:
  "req_Source exTrashRequest = ListRequest_TRASH \<and> req_Key exTrashRequest = Some exKey"
  by code_simp

text \<open>
  C6. A \<^verbatim>\<open>ListHistory\<close> call with \<^verbatim>\<open>Source = TRASH\<close> that returns an iterator returns
  at most one entry. An entry that is returned is a deletion in the object's history whose
  resource version no other deletion exceeds, and it is returned only when the lookup of
  the latest metadata key ended in \<open>ErrNotFound\<close> (the object is not live); when the
  lookup finds a key (the object is live) the result is empty.
\<close>

theorem trash_at_most_latest_delete:
  assumes "req_Source req = ListRequest_TRASH"
    and "req_Key req = Some key"
    and "ListHistory_collect (dataStore_Keys c (dataStore k) key) [] = Inr historyKeys"
    and "ListHistory_iter c k req = (Inr iter, k')"
  shows "length (hi_keys iter) \<le> 1
     \<and> (\<forall>e\<in>set (hi_keys iter).
           e \<in> set historyKeys \<and> Action e = DataActionDeleted
           \<and> (\<forall>d\<in>set historyKeys.
                 Action d = DataActionDeleted \<longrightarrow> ResourceVersion d \<le> ResourceVersion e))
     \<and> (hi_keys iter \<noteq> [] \<longrightarrow>
           metaStore_GetLatestResourceKey c (metaStore k) key = Inl ErrNotFound)
     \<and> (\<forall>found. metaStore_GetLatestResourceKey c (metaStore k) key = Inr found \<longrightarrow>
           hi_keys iter = [])"
proof -
  from ListHistory_iter_Inr [OF assms(4) assms(2) assms(3)] assms(1)
  obtain lastSeenRV asc filtered where
    f: "versionMatchFilter req (trashKeys c k key historyKeys) = Inr filtered"
    and ks: "hi_keys iter = pagedKeys lastSeenRV asc (sortKeys asc filtered)"
    by auto
  let ?t = "trashKeys c k key historyKeys"
  from versionMatchFilter_subset [OF f]
  have sub: "set filtered \<subseteq> set ?t" and len: "length filtered \<le> length ?t" by auto
  have sub': "set (hi_keys iter) \<subseteq> set ?t"
    using ks sub set_pagedKeys [of lastSeenRV asc "sortKeys asc filtered"] by auto
  have "length (hi_keys iter) \<le> length filtered"
    using ks length_pagedKeys [of lastSeenRV asc "sortKeys asc filtered"] by simp
  with len trashKeys_props [of c k key historyKeys] have l1: "length (hi_keys iter) \<le> 1"
    by linarith
  have ne: "hi_keys iter \<noteq> [] \<Longrightarrow> ?t \<noteq> []"
    using sub' by auto
  show ?thesis
    using l1 sub' ne trashKeys_props [of c k key historyKeys] by (auto simp: subset_iff)
qed

theorem trash_at_most_latest_delete_witness:
  "hi_keys (newHistoryIterator [exRevision 3 DataActionDeleted] 4 False)
     = [exRevision 3 DataActionDeleted]
   \<and> metaStore_GetLatestResourceKey memCollaborators (metaStore exDeleted) exKey
       = Inl ErrNotFound
   \<and> hi_keys (newHistoryIterator [] 5 False) = []"
  using
    trash_at_most_latest_delete
      [OF conjunct1 [OF exTrashRequest_fields] conjunct2 [OF exTrashRequest_fields]
          exDeleted_history exDeleted_trash]
    trash_at_most_latest_delete
      [OF conjunct1 [OF exTrashRequest_fields] conjunct2 [OF exTrashRequest_fields]
          exRecreated_history exRecreated_trash]
    exRecreated_lookup
  by (simp add: newHistoryIterator_def)

text \<open>
  For every choice of the collaborators, a liveness lookup that fails with an error other
  than \<open>ErrNotFound\<close> selects nothing and raises nothing.
\<close>

lemma trashKeys_lookup_error:
  "metaStore_GetLatestResourceKey c (metaStore k) key = Inl err \<Longrightarrow> err \<noteq> ErrNotFound
     \<Longrightarrow> trashKeys c k key historyKeys = []"
  by (simp add: trashKeys_def)

text \<open>
  C9. The deleted object behind a metadata store whose reads fail: the liveness lookup of
  the trash listing returns a store error, not \<open>ErrNotFound\<close>, and \<^verbatim>\<open>ListHistory\<close>
  still completes without an error, with an empty iterator and the list version.
\<close>

theorem trash_swallows_lookup_error:
  "metaStore_GetLatestResourceKey memCollaborators (metaStore exDeletedFaulty) exKey
     = Inl (StoreError ''kv unavailable'')
   \<and> ListHistory_iter memCollaborators exDeletedFaulty exTrashRequest
     = (Inr (newHistoryIterator [] 4 False), exDeletedFaulty\<lparr>snowflake := 4\<rparr>)
   \<and> ListHistory memCollaborators exDeletedFaulty exTrashRequest (\<lambda>iter. None)
     = (Inr 4, exDeletedFaulty\<lparr>snowflake := 4\<rparr>)"
  by code_simp

lemma latestDeleteRV_fold:
  "a \<le> fold (\<lambda>key latest.
             if Action key = DataActionDeleted \<and> ResourceVersion key > latest
             then ResourceVersion key else latest) ks a
   \<and> (\<forall>d\<in>set ks. Action d = DataActionDeleted \<longrightarrow>
          ResourceVersion d \<le> fold (\<lambda>key latest.
             if Action key = DataActionDeleted \<and> ResourceVersion key > latest
             then ResourceVersion key else latest) ks a)"
proof (induction ks arbitrary: a)
  case Nil
  show ?case by simp
next
  case (Cons x xs)
  let ?f = "\<lambda>key latest.
             if Action key = DataActionDeleted \<and> ResourceVersion key > latest
             then ResourceVersion key else latest"
  from Cons.IH [of "?f x a"] show ?case by auto
qed

lemma latestDeleteRV_ge:
  "d \<in> set ks \<Longrightarrow> Action d = DataActionDeleted \<Longrightarrow> ResourceVersion d \<le> latestDeleteRV ks"
  using latestDeleteRV_fold [of 0 ks] by (auto simp: latestDeleteRV_def)

lemma exRecreated_live:
  "ListHistory_iter memCollaborators exRecreated exHistoryRequest =
     (Inr (newHistoryIterator [rev4] 5 False), exRecreated\<lparr>snowflake := 5\<rparr>)"
  by code_simp

lemma exHistoryRequest_fields:
  "req_Source exHistoryRequest \<noteq> ListRequest_TRASH
   \<and> req_VersionMatchV2 exHistoryRequest \<noteq> ResourceVersionMatchV2_Exact
   \<and> req_ResourceVersion exHistoryRequest = 0
   \<and> req_Key exHistoryRequest = Some exKey"
  by code_simp

text \<open>
  The two halves of the live window, for every choice of the collaborators: without a
  resource version in the request the entries at and below a deletion are dropped, and
  with one the guarded block does nothing.
\<close>

lemma live_window_applies:
  assumes "req_Source req \<noteq> ListRequest_TRASH"
    and "req_VersionMatchV2 req \<noteq> ResourceVersionMatchV2_Exact"
    and "req_ResourceVersion req = 0"
    and "req_Key req = Some key"
    and "ListHistory_collect (dataStore_Keys c (dataStore k) key) [] = Inr historyKeys"
    and "ListHistory_iter c k req = (Inr iter, k')"
    and "d \<in> set historyKeys"
    and "Action d = DataActionDeleted"
    and "0 < ResourceVersion d"
  shows "\<forall>e\<in>set (hi_keys iter). e \<in> set historyKeys \<and> ResourceVersion d < ResourceVersion e"
proof -
  from ListHistory_iter_Inr [OF assms(6) assms(4) assms(5)] assms(1)
  obtain lastSeenRV asc filtered where
    f: "versionMatchFilter req historyKeys = Inr filtered"
    and ks: "hi_keys iter = pagedKeys lastSeenRV asc (sortKeys asc (liveHistory req filtered))"
    by auto
  from f assms(2,3) have "filtered = historyKeys"
    by (auto simp: versionMatchFilter_def split: ResourceVersionMatchV2.splits)
  with ks have ks': "set (hi_keys iter) \<subseteq> set (liveHistory req historyKeys)"
    using set_pagedKeys [of lastSeenRV asc "sortKeys asc (liveHistory req historyKeys)"] by simp
  from latestDeleteRV_ge [OF assms(7,8)] assms(9)
  have ge: "ResourceVersion d \<le> latestDeleteRV historyKeys" and pos: "0 < latestDeleteRV historyKeys"
    by auto
  from pos assms(1,2,3)
  have "liveHistory req historyKeys =
          filter (\<lambda>key. ResourceVersion key > latestDeleteRV historyKeys) historyKeys"
    by (simp add: liveHistory_def)
  with ks' ge show ?thesis by auto
qed

lemma liveHistory_with_version:
  "req_ResourceVersion req \<noteq> 0 \<Longrightarrow> liveHistory req ks = ks"
  by (simp add: liveHistory_def)

lemma live_window_skipped:
  assumes "req_Source req \<noteq> ListRequest_TRASH"
    and "req_ResourceVersion req \<noteq> 0"
    and "req_Key req = Some key"
    and "ListHistory_collect (dataStore_Keys c (dataStore k) key) [] = Inr historyKeys"
    and "ListHistory_iter c k req = (Inr iter, k')"
  shows "\<exists>lastSeenRV filtered.
           ListHistory_cursor c req = Inr (lastSeenRV, hi_sortAscending iter)
           \<and> versionMatchFilter req historyKeys = Inr filtered
           \<and> hi_keys iter =
               pagedKeys lastSeenRV (hi_sortAscending iter)
                 (sortKeys (hi_sortAscending iter) filtered)"
proof -
  from ListHistory_iter_Inr [OF assms(5) assms(3) assms(4)] assms(1)
  obtain lastSeenRV asc filtered where
    "ListHistory_cursor c req = Inr (lastSeenRV, asc)"
    "versionMatchFilter req historyKeys = Inr filtered"
    "hi_sortAscending iter = asc"
    "hi_keys iter = pagedKeys lastSeenRV asc (sortKeys asc (liveHistory req filtered))"
    by auto
  with liveHistory_with_version [OF assms(2)] show ?thesis by auto
qed

lemma exRecreated_at_version:
  "ListHistory_iter memCollaborators exRecreated (exHistoryRequest\<lparr>req_ResourceVersion := 4\<rparr>) =
     (Inr (newHistoryIterator [rev4, rev3, rev2, rev1] 5 False), exRecreated\<lparr>snowflake := 5\<rparr>)"
  by code_simp

lemma exVersionRequest_fields:
  "req_Source (exHistoryRequest\<lparr>req_ResourceVersion := 4\<rparr>) \<noteq> ListRequest_TRASH
   \<and> req_VersionMatchV2 (exHistoryRequest\<lparr>req_ResourceVersion := 4\<rparr>)
       \<noteq> ResourceVersionMatchV2_Exact
   \<and> req_ResourceVersion (exHistoryRequest\<lparr>req_ResourceVersion := 4\<rparr>) = 4
   \<and> req_Key (exHistoryRequest\<lparr>req_ResourceVersion := 4\<rparr>) = Some exKey"
  by code_simp

lemma exVersionRequest_filtered:
  "ListHistory_cursor memCollaborators (exHistoryRequest\<lparr>req_ResourceVersion := 4\<rparr>)
     = Inr (0, False)
   \<and> versionMatchFilter (exHistoryRequest\<lparr>req_ResourceVersion := 4\<rparr>) [rev1, rev2, rev3, rev4]
     = Inr [rev1, rev2, rev3, rev4]"
  by code_simp

text \<open>
  C5, as amended. In live mode (source not \<^verbatim>\<open>TRASH\<close>, match not \<^verbatim>\<open>Exact\<close>): with no
  resource version in the request (\<^verbatim>\<open>ResourceVersion = 0\<close>), every entry the iterator
  returns is an entry of the history with a resource version above that of every deletion
  in the history (deletions carry positive resource versions, as every minted version
  does); with a resource version in the request, the live-window rule is not applied, and
  the iterator returns the entries that pass the version filter, sorted and cut at the
  cursor, whatever deletions lie among them.
\<close>

theorem live_history_after_last_delete:
  assumes "req_Source req \<noteq> ListRequest_TRASH"
    and "req_VersionMatchV2 req \<noteq> ResourceVersionMatchV2_Exact"
    and "req_Key req = Some key"
    and "ListHistory_collect (dataStore_Keys c (dataStore k) key) [] = Inr historyKeys"
    and "ListHistory_iter c k req = (Inr iter, k')"
  shows "(req_ResourceVersion req = 0 \<longrightarrow>
           (\<forall>d\<in>set historyKeys.
              Action d = DataActionDeleted \<and> 0 < ResourceVersion d \<longrightarrow>
              (\<forall>e\<in>set (hi_keys iter).
                 e \<in> set historyKeys \<and> ResourceVersion d < ResourceVersion e)))
       \<and> (req_ResourceVersion req \<noteq> 0 \<longrightarrow>
           liveHistory req = (\<lambda>ks. ks)
           \<and> (\<exists>lastSeenRV filtered.
                 ListHistory_cursor c req = Inr (lastSeenRV, hi_sortAscending iter)
                 \<and> versionMatchFilter req historyKeys = Inr filtered
                 \<and> hi_keys iter =
                     pagedKeys lastSeenRV (hi_sortAscending iter)
                       (sortKeys (hi_sortAscending iter) filtered)))"
proof -
  have first: "req_ResourceVersion req = 0 \<longrightarrow>
           (\<forall>d\<in>set historyKeys.
              Action d = DataActionDeleted \<and> 0 < ResourceVersion d \<longrightarrow>
              (\<forall>e\<in>set (hi_keys iter).
                 e \<in> set historyKeys \<and> ResourceVersion d < ResourceVersion e))"
  proof (rule impI, rule ballI, rule impI)
    fix d
    assume z: "req_ResourceVersion req = 0" and d: "d \<in> set historyKeys"
      and a: "Action d = DataActionDeleted \<and> 0 < ResourceVersion d"
    from a have a1: "Action d = DataActionDeleted" and a2: "0 < ResourceVersion d" by simp_all
    show "\<forall>e\<in>set (hi_keys iter). e \<in> set historyKeys \<and> ResourceVersion d < ResourceVersion e"
      by (rule live_window_applies [OF assms(1,2) z assms(3,4,5) d a1 a2])
  qed
  have second: "req_ResourceVersion req \<noteq> 0 \<longrightarrow>
           liveHistory req = (\<lambda>ks. ks)
           \<and> (\<exists>lastSeenRV filtered.
                 ListHistory_cursor c req = Inr (lastSeenRV, hi_sortAscending iter)
                 \<and> versionMatchFilter req historyKeys = Inr filtered
                 \<and> hi_keys iter =
                     pagedKeys lastSeenRV (hi_sortAscending iter)
                       (sortKeys (hi_sortAscending iter) filtered))"
  proof
    assume nz: "req_ResourceVersion req \<noteq> 0"
    then have "liveHistory req = (\<lambda>ks. ks)"
      by (simp add: fun_eq_iff liveHistory_with_version)
    with live_window_skipped [OF assms(1) nz assms(3,4,5)]
    show "liveHistory req = (\<lambda>ks. ks)
           \<and> (\<exists>lastSeenRV filtered.
                 ListHistory_cursor c req = Inr (lastSeenRV, hi_sortAscending iter)
                 \<and> versionMatchFilter req historyKeys = Inr filtered
                 \<and> hi_keys iter =
                     pagedKeys lastSeenRV (hi_sortAscending iter)
                       (sortKeys (hi_sortAscending iter) filtered))"
      by (rule conjI [rotated])
  qed
  from first second show ?thesis by (rule conjI)
qed

theorem live_history_after_last_delete_witness:
  "hi_keys (newHistoryIterator [exRevision 4 DataActionCreated] 5 False)
     = [exRevision 4 DataActionCreated]
   \<and> ResourceVersion (exRevision 3 DataActionDeleted)
       < ResourceVersion (exRevision 4 DataActionCreated)
   \<and> hi_keys (newHistoryIterator [rev4, rev3, rev2, rev1] 5 False)
       = pagedKeys 0 False (sortKeys False [rev1, rev2, rev3, rev4])
   \<and> liveHistory (exHistoryRequest\<lparr>req_ResourceVersion := 4\<rparr>) [rev1, rev2, rev3, rev4]
       = [rev1, rev2, rev3, rev4]"
  using
    live_history_after_last_delete
      [of exHistoryRequest exKey memCollaborators exRecreated "[rev1, rev2, rev3, rev4]"
          "newHistoryIterator [rev4] 5 False" "exRecreated\<lparr>snowflake := 5\<rparr>"]
    live_history_after_last_delete
      [of "exHistoryRequest\<lparr>req_ResourceVersion := 4\<rparr>" exKey memCollaborators exRecreated
          "[rev1, rev2, rev3, rev4]"
          "newHistoryIterator [rev4, rev3, rev2, rev1] 5 False" "exRecreated\<lparr>snowflake := 5\<rparr>"]
    exHistoryRequest_fields exRecreated_history exRecreated_live
    exVersionRequest_fields exRecreated_at_version exVersionRequest_filtered
  by (auto simp add: newHistoryIterator_def exRevision_def)

text \<open>
  C5 as stated fails when the caller supplies a resource version: the object was created,
  updated, deleted at version 3 and created again at version 4, and the history requested
  at version 4 returns all four revisions, those at and below the deletion included.
\<close>

theorem live_window_skipped_counterexample:
  "fst (ListHistory_iter memCollaborators exRecreated
          (exHistoryRequest\<lparr>req_ResourceVersion := 4\<rparr>))
     = Inr (newHistoryIterator
              [exRevision 4 DataActionCreated, exRevision 3 DataActionDeleted,
               exRevision 2 DataActionUpdated, exRevision 1 DataActionCreated] 5 False)
   \<and> ResourceVersion (exRevision 2 DataActionUpdated)
       \<le> ResourceVersion (exRevision 3 DataActionDeleted)"
  by code_simp

lemma sorted_rev_uminus: "sorted (rev ys) = sorted (map uminus (ys :: int list))"
  by (induction ys) (auto simp: sorted_append)

lemma pagedKeys_eq:
  "pagedKeys l asc ks =
     (if l = 0 then ks
      else filter (\<lambda>e. if asc then l < ResourceVersion e else ResourceVersion e < l) ks)"
  by (auto simp: pagedKeys_def intro: filter_cong)

lemma sorted_pagedKeys_sortKeys:
  "if asc then sorted (map ResourceVersion (pagedKeys l asc (sortKeys asc ks)))
   else sorted (rev (map ResourceVersion (pagedKeys l asc (sortKeys asc ks))))"
proof (cases asc)
  case True
  have "sorted (map ResourceVersion (sort_key ResourceVersion ks))"
    by (rule sorted_sort_key)
  then have "sorted (map ResourceVersion (pagedKeys l True (sort_key ResourceVersion ks)))"
    unfolding pagedKeys_def by (rule sorted_filter)
  with True show ?thesis by (simp add: sortKeys_def)
next
  case False
  let ?f = "\<lambda>key :: DataKey. - ResourceVersion key"
  have "sorted (map ?f (sort_key ?f ks))"
    by (rule sorted_sort_key)
  then have "sorted (map ?f (pagedKeys l False (sort_key ?f ks)))"
    unfolding pagedKeys_def by (rule sorted_filter)
  then have "sorted (map uminus (map ResourceVersion (pagedKeys l False (sort_key ?f ks))))"
    by (simp add: comp_def)
  with False show ?thesis by (simp add: sortKeys_def sorted_rev_uminus)
qed

lemma exUpdated_page2:
  "ListHistory_iter memCollaborators exUpdated
     (exHistoryRequest\<lparr>req_NextPageToken := ''+11/+11/d''\<rparr>) =
     (Inr (newHistoryIterator [rev1] 3 False), exUpdated\<lparr>snowflake := 3\<rparr>)"
  by code_simp

lemma exUpdated_page2_fields:
  "req_Key (exHistoryRequest\<lparr>req_NextPageToken := ''+11/+11/d''\<rparr>) = Some exKey
   \<and> GetContinueToken memCollaborators ''+11/+11/d''
       = Inr \<lparr>StartOffset = 2, tok_ResourceVersion = 2, SortAscending = False\<rparr>
   \<and> req_NextPageToken (exHistoryRequest\<lparr>req_NextPageToken := ''+11/+11/d''\<rparr>)
       = ''+11/+11/d''"
  by code_simp

text \<open>
  C7, as amended. The direction of a \<^verbatim>\<open>ListHistory\<close> call is ascending exactly for
  \<^verbatim>\<open>NotOlderThan\<close> when there is no token, and is the token's direction otherwise; the
  returned entries are sorted by resource version, ascending in the ascending direction
  and descending in the other. They are the entries that pass the version filter (and the
  live window, or the trash selection), sorted, and, when the token carries a resource
  version other than 0, restricted to exactly those strictly beyond it in the direction;
  with no token, or a token whose resource version is 0, all of them are returned.
  Sorting neither drops nor repeats an entry.
\<close>

theorem history_sorted_and_paged:
  assumes "ListHistory_iter c k req = (Inr iter, k')"
    and "req_Key req = Some key"
    and "ListHistory_collect (dataStore_Keys c (dataStore k) key) [] = Inr historyKeys"
  shows "\<exists>lastSeenRV filtered.
      ListHistory_cursor c req = Inr (lastSeenRV, hi_sortAscending iter)
    \<and> (req_NextPageToken req = [] \<longrightarrow>
         lastSeenRV = 0
         \<and> hi_sortAscending iter =
             (req_VersionMatchV2 req = ResourceVersionMatchV2_NotOlderThan))
    \<and> (\<forall>token. req_NextPageToken req \<noteq> []
                 \<and> GetContinueToken c (req_NextPageToken req) = Inr token \<longrightarrow>
         lastSeenRV = tok_ResourceVersion token
         \<and> hi_sortAscending iter = SortAscending token)
    \<and> (if hi_sortAscending iter then sorted (map ResourceVersion (hi_keys iter))
        else sorted (rev (map ResourceVersion (hi_keys iter))))
    \<and> versionMatchFilter req
         (if req_Source req = ListRequest_TRASH then trashKeys c k key historyKeys
          else historyKeys) = Inr filtered
    \<and> hi_keys iter =
         (if lastSeenRV = 0
          then sortKeys (hi_sortAscending iter)
                 (if req_Source req = ListRequest_TRASH then filtered
                  else liveHistory req filtered)
          else filter (\<lambda>e. if hi_sortAscending iter then lastSeenRV < ResourceVersion e
                           else ResourceVersion e < lastSeenRV)
                 (sortKeys (hi_sortAscending iter)
                    (if req_Source req = ListRequest_TRASH then filtered
                     else liveHistory req filtered)))
    \<and> mset (sortKeys (hi_sortAscending iter)
               (if req_Source req = ListRequest_TRASH then filtered
                else liveHistory req filtered))
        = mset (if req_Source req = ListRequest_TRASH then filtered
                else liveHistory req filtered)"
proof -
  from ListHistory_iter_Inr [OF assms]
  obtain lastSeenRV asc filtered where
    cur: "ListHistory_cursor c req = Inr (lastSeenRV, asc)"
    and f: "versionMatchFilter req
              (if req_Source req = ListRequest_TRASH then trashKeys c k key historyKeys
               else historyKeys) = Inr filtered"
    and asc: "hi_sortAscending iter = asc"
    and ks: "hi_keys iter =
               pagedKeys lastSeenRV asc
                 (sortKeys asc
                    (if req_Source req = ListRequest_TRASH then filtered
                     else liveHistory req filtered))"
    by blast
  define entries where
    "entries = (if req_Source req = ListRequest_TRASH then filtered
                else liveHistory req filtered)"
  have ks': "hi_keys iter = pagedKeys lastSeenRV asc (sortKeys asc entries)"
    using ks unfolding entries_def .
  have c1: "req_NextPageToken req = [] \<longrightarrow>
         lastSeenRV = 0 \<and> asc = (req_VersionMatchV2 req = ResourceVersionMatchV2_NotOlderThan)"
    using cur by (auto simp: ListHistory_cursor_def)
  have c2: "\<forall>token. req_NextPageToken req \<noteq> []
                 \<and> GetContinueToken c (req_NextPageToken req) = Inr token \<longrightarrow>
         lastSeenRV = tok_ResourceVersion token \<and> asc = SortAscending token"
    using cur by (auto simp: ListHistory_cursor_def)
  have c3: "if asc then sorted (map ResourceVersion (hi_keys iter))
        else sorted (rev (map ResourceVersion (hi_keys iter)))"
    unfolding ks' by (rule sorted_pagedKeys_sortKeys)
  have c4: "hi_keys iter =
         (if lastSeenRV = 0 then sortKeys asc entries
          else filter (\<lambda>e. if asc then lastSeenRV < ResourceVersion e
                           else ResourceVersion e < lastSeenRV)
                 (sortKeys asc entries))"
    unfolding ks' by (rule pagedKeys_eq)
  have c5: "mset (sortKeys asc entries) = mset entries"
    by (rule mset_sortKeys)
  from cur c1 c2 c3 f c4 c5 show ?thesis
    unfolding asc entries_def by blast
qed

theorem history_sorted_and_paged_witness:
  "ListHistory_cursor memCollaborators (exHistoryRequest\<lparr>req_NextPageToken := ''+11/+11/d''\<rparr>)
     = Inr (2, False)
   \<and> hi_keys (newHistoryIterator [exRevision 1 DataActionCreated] 3 False)
       = [exRevision 1 DataActionCreated]
   \<and> sorted (rev (map ResourceVersion [exRevision 1 DataActionCreated]))"
  using
    history_sorted_and_paged
      [OF exUpdated_page2 conjunct1 [OF exUpdated_page2_fields] exUpdated_history]
    exUpdated_page2_fields
  by (auto simp add: newHistoryIterator_def)

text \<open>
  C7 as stated fails for a token that carries resource version 0 in the descending
  direction: no entry lies strictly beyond 0 in that direction, and both revisions are
  returned.
\<close>

theorem cursor_zero_keeps_all_counterexample:
  "GetContinueToken memCollaborators ''+/+/d''
     = Inr \<lparr>StartOffset = 0, tok_ResourceVersion = 0, SortAscending = False\<rparr>
   \<and> fst (ListHistory_iter memCollaborators exUpdated
            (exHistoryRequest\<lparr>req_NextPageToken := ''+/+/d''\<rparr>))
       = Inr (newHistoryIterator
                [exRevision 2 DataActionUpdated, exRevision 1 DataActionCreated] 3 False)
   \<and> \<not> ResourceVersion (exRevision 2 DataActionUpdated) < 0"
  by code_simp

section \<open>The snapshot of a listing\<close>

text \<open>
  For every choice of the collaborators: a request with no token is scanned at the
  request's own resource version, whatever list version is minted; without a resource
  version in the request that is version 0, while the iterator is anchored to the minted
  version.
\<close>

lemma ListIterator_iter_no_token:
  assumes "req_Key req = Some key"
    and "req_NextPageToken req = []"
    and "Generate c (snowflake k) = (minted, g)"
    and "0 \<le> min defaultListBufferSize (int64 (req_Limit req + 1))"
  shows "ListIterator_iter c k req =
     (case ListIterator_scan
             (metaStore_ListResourceKeysAtRevision c (metaStore k) key (req_ResourceVersion req))
             0 0 (int64 (req_Limit req + 1)) [] of
        Inl err \<Rightarrow> (Inl err, k\<lparr>snowflake := g\<rparr>)
      | Inr keys \<Rightarrow>
          (Inr \<lparr>li_keys = keys, li_currentIndex = - 1,
                li_listRV = (if req_ResourceVersion req > 0 then req_ResourceVersion req
                             else minted),
                li_offset = 0, li_rv = 0, li_err = None, li_value = []\<rparr>,
           k\<lparr>snowflake := g\<rparr>))"
proof -
  from assms(4) have "\<not> min defaultListBufferSize (int64 (req_Limit req + 1)) < 0"
    by linarith
  with assms(1-3) show ?thesis
    by (simp add: ListIterator_iter_def ListIterator_cursor_def Let_def
        del: min_less_iff_disj min.bounded_iff)
qed

text \<open>
  C1. A first page requested with no token and no resource version: the snowflake node
  mints list version 5, which the iterator carries and its continuation token embeds, but
  the metadata store is scanned at the request's version 0, that is at its latest state,
  and the page holds object \<open>a\<close> of version 7; a scan at the list version 5 holds only
  object \<open>b\<close>. The page that the issued token then fetches is scanned at version 5:
  \<open>a\<close> is gone, and with one object skipped \<open>b\<close> is never returned.
\<close>

theorem fresh_list_not_scanned_at_listRV:
  "ListIterator_iter memCollaborators exConcurrent exListRequest
     = (Inr exFirstPage, exConcurrent\<lparr>snowflake := 5\<rparr>)
   \<and> ListIterator_scan
        (metaStore_ListResourceKeysAtRevision memCollaborators (metaStore exConcurrent)
           \<lparr>Namespace = ''ns'', Group = ''g'', Resource = ''r'', Name = []\<rparr>
           (li_listRV exFirstPage))
        0 0 2 []
     = Inr [exMetaKey ''b'' 1]
   \<and> kvListIterator_Next memCollaborators (dataStore exConcurrent) exFirstPage
     = Inr (True, exFirstPage\<lparr>li_currentIndex := 0, li_rv := 7, li_value := ''va'',
                               li_offset := 1\<rparr>)
   \<and> kvListIterator_ContinueToken memCollaborators
        (exFirstPage\<lparr>li_currentIndex := 0, li_rv := 7, li_value := ''va'', li_offset := 1\<rparr>)
     = ''+1/+11111/d''
   \<and> ListIterator_iter memCollaborators (exConcurrent\<lparr>snowflake := 5\<rparr>)
        (exListRequest\<lparr>req_NextPageToken := ''+1/+11111/d''\<rparr>)
     = (Inr \<lparr>li_keys = [], li_currentIndex = - 1, li_listRV = 5, li_offset = 1, li_rv = 0,
             li_err = None, li_value = []\<rparr>,
        exConcurrent\<lparr>snowflake := 6\<rparr>)
   \<and> fst (ListIterator memCollaborators exConcurrent exListRequest (\<lambda>iter. None)) = Inr 5"
  by code_simp

section \<open>Statistics\<close>


lemma lastWhere_Nil [simp]: "lastWhere P [] = None"
  by (simp add: lastWhere_def)
















lemma stats_fold_snoc:
  "fold stats_step (ks @ [x]) acc = stats_step x (fold stats_step ks acc)"
  by simp










lemma exStats_scan:
  "dataStore_Keys memCollaborators (dataStore exStatsStore)
     \<lparr>Namespace = ''ns'', Group = [], Resource = [], Name = []\<rparr> = map Inr exStatsKeys"
  by code_simp










end
